theory Spec2Isabelle
  imports Complex_Main "HOL-Library.Sublist"
begin

section \<open>Values: exceptions, JSON, documents\<close>

text \<open>
  Python exceptions are values. Only the classes the server code or the interpreter
  raises in it, or that it catches by name, are told apart; every other class an
  external library may raise is \<open>OtherError\<close>. \<open>str_exc\<close> is Python's
  \<open>str(e)\<close>: the message, and for a KeyError the \<open>repr\<close> of the key.
\<close>

datatype exc =
    ValueError string
  | ImportError string
  | IndexError string
  | TypeError string
  | KeyError string
  | AttributeError string
  | OtherError string

definition quote :: "string \<Rightarrow> string" where
  "quote s = CHR 0x27 # s @ [CHR 0x27]"

fun str_exc :: "exc \<Rightarrow> string" where
  "str_exc (ValueError m) = m"
| "str_exc (ImportError m) = m"
| "str_exc (IndexError m) = m"
| "str_exc (TypeError m) = m"
| "str_exc (KeyError key) = quote key"
| "str_exc (AttributeError m) = m"
| "str_exc (OtherError m) = m"

fun is_ImportError :: "exc \<Rightarrow> bool" where
  "is_ImportError (ImportError m) = True"
| "is_ImportError e = False"

text \<open>
  JSON values, used for metadata, filters and response bodies. A Python dict is an
  association list; \<open>map_of\<close> is the lookup. Scores are floats that the code only
  passes on (\<open>float(score)\<close>), never computes with; they are kept as reals.
\<close>

datatype json =
    JNull
  | JBool bool
  | JInt int
  | JFloat real
  | JStr string
  | JList "json list"
  | JObj "(string \<times> json) list"

type_synonym dict = "(string \<times> json) list"

text \<open>\<open>d.get(key, default)\<close>\<close>

definition dict_get :: "dict \<Rightarrow> string \<Rightarrow> json \<Rightarrow> json" where
  "dict_get d key dflt = (case map_of d key of None \<Rightarrow> dflt | Some v \<Rightarrow> v)"

text \<open>\<open>d[key] = v\<close>: replaces the value of an existing key, appends a new key.\<close>

fun dict_set :: "dict \<Rightarrow> string \<Rightarrow> json \<Rightarrow> dict" where
  "dict_set [] key v = [(key, v)]"
| "dict_set ((k', v') # d) key v =
     (if k' = key then (k', v) # d else (k', v') # dict_set d key v)"

text \<open>\<open>d.update(u)\<close>\<close>

definition dict_update :: "dict \<Rightarrow> dict \<Rightarrow> dict" where
  "dict_update d u = foldl (\<lambda>acc (key, v). dict_set acc key v) d u"

text \<open>langchain's \<open>Document\<close>\<close>

record document =
  page_content :: string
  metadata :: dict

section \<open>Strings and the interpreter\<close>

text \<open>
  A string is the list of its characters; a character outside ASCII is kept as the
  bytes of its encoding, each with the high bit set. What Python answers from its
  Unicode tables on text that is not ASCII, and the exceptions the interpreter itself
  raises on ill-typed values (their text changes between versions), are parameters:
  \<^item> \<open>unicode_lower s\<close>: \<open>s.lower()\<close> for a string with a non-ASCII character;
  \<^item> \<open>unicode_blank s\<close>: whether \<open>s.strip()\<close> is empty, for such a string;
  \<^item> \<open>not_iterable v\<close>: what \<open>key in v\<close> raises when \<open>v\<close> is no container;
  \<^item> \<open>not_subscriptable v\<close>: what \<open>v[key]\<close> raises for a string key when
    \<open>v\<close> is no dict;
  \<^item> \<open>no_get v\<close>: what \<open>v.get\<close> raises when \<open>v\<close> is no dict.
\<close>

record interpreter =
  unicode_lower :: "string \<Rightarrow> string"
  unicode_blank :: "string \<Rightarrow> bool"
  not_iterable :: "json \<Rightarrow> exc"
  not_subscriptable :: "json \<Rightarrow> exc"
  no_get :: "json \<Rightarrow> exc"

definition is_ascii :: "char \<Rightarrow> bool" where
  "is_ascii c = (\<not> digit7 c)"

text \<open>
  \<open>str.lower()\<close>: on ASCII text the letters A to Z are folded and nothing else
  changes; other text is the interpreter's.
\<close>

definition lower_char :: "char \<Rightarrow> char" where
  "lower_char c =
     (case map_of (zip ''ABCDEFGHIJKLMNOPQRSTUVWXYZ'' ''abcdefghijklmnopqrstuvwxyz'') c of
        None \<Rightarrow> c
      | Some l \<Rightarrow> l)"

definition lower :: "interpreter \<Rightarrow> string \<Rightarrow> string" where
  "lower py s = (if list_all is_ascii s then map lower_char s else unicode_lower py s)"

text \<open>
  \<open>s.rsplit('.', 1)\<close>: one split at the last dot; the whole string, alone, when
  there is no dot.
\<close>

definition rsplit_dot :: "string \<Rightarrow> string list" where
  "rsplit_dot s =
     (if CHR ''.'' \<in> set s
      then [rev (tl (dropWhile (\<lambda>c. c \<noteq> CHR ''.'') (rev s))),
            rev (takeWhile (\<lambda>c. c \<noteq> CHR ''.'') (rev s))]
      else [s])"

text \<open>\<open>xs[i]\<close> for an index \<open>i \<ge> 0\<close>: IndexError out of range.\<close>

definition py_index :: "'a list \<Rightarrow> nat \<Rightarrow> exc + 'a" where
  "py_index xs i =
     (if i < length xs then Inr (xs ! i) else Inl (IndexError ''list index out of range''))"

text \<open>\<open>sep.join(xs)\<close>\<close>

fun join :: "string \<Rightarrow> string list \<Rightarrow> string" where
  "join sep [] = []"
| "join sep [x] = x"
| "join sep (x # y # ys) = x @ sep @ join sep (y # ys)"

text \<open>
  \<open>text.strip()\<close> is truthy when the text has a character that is not whitespace.
  The ASCII whitespace of \<open>str.strip\<close> is tab to carriage return, the separators
  28 to 31, and the space; other text is the interpreter's.
\<close>

definition is_space :: "char \<Rightarrow> bool" where
  "is_space c = (c \<in> set [CHR 0x09, CHR 0x0A, CHR 0x0B, CHR 0x0C, CHR 0x0D,
                            CHR 0x1C, CHR 0x1D, CHR 0x1E, CHR 0x1F, CHR '' ''])"

definition strip_nonempty :: "interpreter \<Rightarrow> string \<Rightarrow> bool" where
  "strip_nonempty py s =
     (if list_all is_ascii s then (\<exists>c \<in> set s. \<not> is_space c) else \<not> unicode_blank py s)"

text \<open>\<open>p in s\<close> for two strings: \<open>p\<close> occurs in \<open>s\<close>.\<close>

fun substring :: "string \<Rightarrow> string \<Rightarrow> bool" where
  "substring p [] = (p = [])"
| "substring p (c # cs) = (prefix p (c # cs) \<or> substring p cs)"

section \<open>Python's operations on JSON values\<close>

text \<open>
  A parsed JSON body is any JSON value, and Python checks no type before it operates
  on it. \<open>truthy\<close> is \<open>bool(v)\<close>; \<open>type_name\<close> is \<open>type(v).__name__\<close>;
  \<open>py_contains py key v\<close> is \<open>key in v\<close>, \<open>py_getitem py v key\<close> is \<open>v[key]\<close>
  and \<open>py_get py v key dflt\<close> is \<open>v.get(key, dflt)\<close>, for a string \<open>key\<close>.
  A dict is an association list with distinct keys.
\<close>

fun truthy :: "json \<Rightarrow> bool" where
  "truthy JNull = False"
| "truthy (JBool b) = b"
| "truthy (JInt n) = (n \<noteq> 0)"
| "truthy (JFloat x) = (x \<noteq> 0)"
| "truthy (JStr s) = (s \<noteq> [])"
| "truthy (JList xs) = (xs \<noteq> [])"
| "truthy (JObj d) = (d \<noteq> [])"

fun type_name :: "json \<Rightarrow> string" where
  "type_name JNull = ''NoneType''"
| "type_name (JBool b) = ''bool''"
| "type_name (JInt n) = ''int''"
| "type_name (JFloat x) = ''float''"
| "type_name (JStr s) = ''str''"
| "type_name (JList xs) = ''list''"
| "type_name (JObj d) = ''dict''"

fun py_contains :: "interpreter \<Rightarrow> string \<Rightarrow> json \<Rightarrow> exc + bool" where
  "py_contains py key (JObj d) = Inr (map_of d key \<noteq> None)"
| "py_contains py key (JList xs) = Inr (JStr key \<in> set xs)"
| "py_contains py key (JStr s) = Inr (substring key s)"
| "py_contains py key v = Inl (not_iterable py v)"

fun py_getitem :: "interpreter \<Rightarrow> json \<Rightarrow> string \<Rightarrow> exc + json" where
  "py_getitem py (JObj d) key =
     (case map_of d key of None \<Rightarrow> Inl (KeyError key) | Some v \<Rightarrow> Inr v)"
| "py_getitem py v key = Inl (not_subscriptable py v)"

fun py_get :: "interpreter \<Rightarrow> json \<Rightarrow> string \<Rightarrow> json \<Rightarrow> exc + json" where
  "py_get py (JObj d) key dflt = Inr (dict_get d key dflt)"
| "py_get py v key dflt = Inl (no_get py v)"

text \<open>
  Equality of dict keys: numbers are equal by value, whatever their type, a bool being
  the number 0 or 1.
\<close>

fun number_of :: "json \<Rightarrow> real option" where
  "number_of (JBool b) = Some (if b then 1 else 0)"
| "number_of (JInt n) = Some (of_int n)"
| "number_of (JFloat x) = Some x"
| "number_of v = None"

definition key_eq :: "json \<Rightarrow> json \<Rightarrow> bool" where
  "key_eq a b =
     (case (number_of a, number_of b) of
        (Some x, Some y) \<Rightarrow> x = y
      | (None, None) \<Rightarrow> a = b
      | _ \<Rightarrow> False)"

section \<open>Configuration (server/config.py)\<close>

record config =
  PINECONE_API_KEY :: "string option"
  PINECONE_INDEX_NAME :: string
  OPENAI_API_KEY :: "string option"
  ALLOWED_EXTENSIONS :: "string set"
  CHUNK_SIZE :: int
  CHUNK_OVERLAP :: int

text \<open>The class \<open>Config\<close> with an empty environment: every default.\<close>

definition Config :: config where
  "Config = \<lparr> PINECONE_API_KEY = None,
              PINECONE_INDEX_NAME = ''langchain-documents'',
              OPENAI_API_KEY = None,
              ALLOWED_EXTENSIONS = {''pdf'', ''txt'', ''docx'', ''xlsx''},
              CHUNK_SIZE = 1000,
              CHUNK_OVERLAP = 200 \<rparr>"

section \<open>Document loader (server/routes/documents.py)\<close>

text \<open>
  \<open>allowed_file\<close>: the conjunction is short-circuit, so the index 1 is only read
  when the name has a dot, where \<open>rsplit_dot\<close> has two parts.
\<close>

definition allowed_file :: "interpreter \<Rightarrow> config \<Rightarrow> string \<Rightarrow> bool" where
  "allowed_file py cfg filename =
     (CHR ''.'' \<in> set filename \<and>
      lower py (rsplit_dot filename ! 1) \<in> ALLOWED_EXTENSIONS cfg)"

text \<open>
  The format readers are libraries outside the repository (the built-in \<open>open\<close>,
  PyPDF2, python-docx, openpyxl). Each is a parameter: given the file system and a
  path it yields what the code reads from it, or the exception it raises (an
  ImportError when the library is not installed).
  \<^item> \<open>read_text\<close>: the decoded content of the file;
  \<^item> \<open>read_pdf\<close>: the extracted text of each page, in order;
  \<^item> \<open>read_docx\<close>: the text of each paragraph;
  \<^item> \<open>read_xlsx\<close>: each sheet's name and rows, a cell being \<open>None\<close> or its
    \<open>str\<close>.
\<close>

type_synonym filesystem = "string \<rightharpoonup> string"

record readers =
  read_text :: "filesystem \<Rightarrow> string \<Rightarrow> exc + string"
  read_pdf :: "filesystem \<Rightarrow> string \<Rightarrow> exc + string list"
  read_docx :: "filesystem \<Rightarrow> string \<Rightarrow> exc + string list"
  read_xlsx :: "filesystem \<Rightarrow> string \<Rightarrow> exc + (string \<times> string option list list) list"

text \<open>
  The inner \<open>try ... except ImportError: raise ValueError(msg)\<close> of the pdf, docx
  and xlsx branches.
\<close>

definition except_ImportError :: "string \<Rightarrow> exc + 'a \<Rightarrow> exc + 'a" where
  "except_ImportError msg r =
     (case r of
        Inl e \<Rightarrow> if is_ImportError e then Inl (ValueError msg) else Inl e
      | Inr v \<Rightarrow> Inr v)"

definition pdf_documents :: "interpreter \<Rightarrow> string \<Rightarrow> string list \<Rightarrow> document list" where
  "pdf_documents py file_path pages =
     map (\<lambda>(page_num, text).
            \<lparr> page_content = text,
              metadata = [(''source'', JStr file_path), (''page'', JInt (int page_num))] \<rparr>)
         (filter (\<lambda>(page_num, text). strip_nonempty py text) (enumerate 0 pages))"

definition row_text :: "string option list \<Rightarrow> string" where
  "row_text row = join [CHR 0x09] (map (\<lambda>cell. case cell of None \<Rightarrow> [] | Some s \<Rightarrow> s) row)"

definition sheet_text :: "string \<times> string option list list \<Rightarrow> string" where
  "sheet_text sheet =
     ''Sheet: '' @ fst sheet @ [CHR 0x0A]
       @ concat (map (\<lambda>row. row_text row @ [CHR 0x0A]) (snd sheet))
       @ [CHR 0x0A]"

text \<open>The body of the outer \<open>try\<close>: the dispatch on the lower-cased extension.\<close>

definition load_by_ext ::
  "interpreter \<Rightarrow> readers \<Rightarrow> filesystem \<Rightarrow> string \<Rightarrow> string \<Rightarrow> exc + document list" where
  "load_by_ext py rd fsys file_path file_ext =
     (if file_ext = ''txt'' then
        (case read_text rd fsys file_path of
           Inl e \<Rightarrow> Inl e
         | Inr content \<Rightarrow>
             Inr [\<lparr> page_content = content, metadata = [(''source'', JStr file_path)] \<rparr>])
      else if file_ext = ''pdf'' then
        except_ImportError ''PyPDF2 is required for PDF processing''
          (case read_pdf rd fsys file_path of
             Inl e \<Rightarrow> Inl e
           | Inr pages \<Rightarrow> Inr (pdf_documents py file_path pages))
      else if file_ext = ''docx'' then
        except_ImportError ''python-docx is required for DOCX processing''
          (case read_docx rd fsys file_path of
             Inl e \<Rightarrow> Inl e
           | Inr paragraphs \<Rightarrow>
               Inr [\<lparr> page_content = join [CHR 0x0A] paragraphs,
                      metadata = [(''source'', JStr file_path)] \<rparr>])
      else if file_ext = ''xlsx'' then
        except_ImportError ''openpyxl is required for XLSX processing''
          (case read_xlsx rd fsys file_path of
             Inl e \<Rightarrow> Inl e
           | Inr sheets \<Rightarrow>
               Inr [\<lparr> page_content = concat (map sheet_text sheets),
                      metadata = [(''source'', JStr file_path)] \<rparr>])
      else Inl (ValueError (''Unsupported file type: '' @ file_ext)))"

text \<open>
  \<open>load_document\<close>: the extension is taken before the \<open>try\<close>, so a name with no
  dot raises IndexError unwrapped; every exception of the body, the unsupported-type
  one included, is re-raised as \<open>ValueError("Error loading <ext> file: <message>")\<close>.
\<close>

definition load_document ::
  "interpreter \<Rightarrow> readers \<Rightarrow> filesystem \<Rightarrow> string \<Rightarrow> string \<Rightarrow> exc + document list" where
  "load_document py rd fsys file_path filename =
     (case py_index (rsplit_dot filename) 1 of
        Inl e \<Rightarrow> Inl e
      | Inr ext \<Rightarrow>
          (let file_ext = lower py ext in
           case load_by_ext py rd fsys file_path file_ext of
             Inl e \<Rightarrow> Inl (ValueError (''Error loading '' @ file_ext @ '' file: '' @ str_exc e))
           | Inr documents \<Rightarrow> Inr documents))"

section \<open>External services\<close>

text \<open>
  The vector index, the embedding provider and langchain's vector store are services
  outside the repository. What they answer is a parameter: a record of functions over
  the provider's state \<open>'r\<close>. A query reads that state and yields a value or the
  exception raised; an operation that writes also yields the state it leaves, on
  failure too (a failed upsert may have written some chunks). An index handle and a
  vector store are identified by the name of their index.
  \<^item> \<open>pinecone_Pinecone\<close>, \<open>OpenAIEmbeddings\<close>: the two clients, built from their keys;
  \<^item> \<open>list_indexes\<close>: the names of the indexes; \<open>create_index name dimension metric\<close>;
  \<^item> \<open>pc_Index name\<close>: the handle of an index; \<open>langchain_Pinecone name\<close>:
    langchain's store built over that handle;
  \<^item> \<open>vs_add_documents\<close>, \<open>vs_similarity_search\<close>,
    \<open>vs_similarity_search_with_score\<close>: the store's methods (query, k, filter); the
    scored search, which a request reaches with the values of its body unchecked, takes
    any JSON value for each (\<open>JNull\<close> is Python's \<open>None\<close>);
  \<^item> \<open>index_query name vector filter top_k\<close>, \<open>index_delete name ids\<close>,
    \<open>describe_index_stats name\<close>: the handle's methods.
\<close>

record match =
  match_id :: string
  match_metadata :: dict
  match_score :: real

record index_stats =
  total_vector_count :: int
  stats_dimension :: int
  index_fullness :: real
  namespaces :: "dict option"

record 'r services =
  pinecone_Pinecone :: "string option \<Rightarrow> 'r \<Rightarrow> exc + unit"
  OpenAIEmbeddings :: "string option \<Rightarrow> 'r \<Rightarrow> exc + unit"
  list_indexes :: "'r \<Rightarrow> exc + string list"
  create_index :: "string \<Rightarrow> int \<Rightarrow> string \<Rightarrow> 'r \<Rightarrow> (exc + unit) \<times> 'r"
  pc_Index :: "string \<Rightarrow> 'r \<Rightarrow> exc + unit"
  langchain_Pinecone :: "string \<Rightarrow> 'r \<Rightarrow> exc + unit"
  vs_add_documents :: "string \<Rightarrow> document list \<Rightarrow> 'r \<Rightarrow> (exc + string list) \<times> 'r"
  vs_similarity_search ::
    "string \<Rightarrow> string \<Rightarrow> int \<Rightarrow> json option \<Rightarrow> 'r \<Rightarrow> exc + document list"
  vs_similarity_search_with_score ::
    "string \<Rightarrow> json \<Rightarrow> json \<Rightarrow> json \<Rightarrow> 'r \<Rightarrow> exc + (document \<times> real) list"
  index_query ::
    "string \<Rightarrow> real list option \<Rightarrow> json option \<Rightarrow> int \<Rightarrow> 'r \<Rightarrow> exc + match list"
  index_delete :: "string \<Rightarrow> string list \<Rightarrow> 'r \<Rightarrow> (exc + unit) \<times> 'r"
  describe_index_stats :: "string \<Rightarrow> 'r \<Rightarrow> exc + index_stats"

text \<open>Every call the server makes to a service is recorded, in order.\<close>

datatype call =
    Call_Pinecone
  | Call_OpenAIEmbeddings
  | Call_list_indexes
  | Call_create_index string int string
  | Call_Index string
  | Call_langchain_Pinecone string
  | Call_add_documents string "document list"
  | Call_similarity_search string string int "json option"
  | Call_similarity_search_with_score string json json json
  | Call_query string "json option" int
  | Call_delete string "string list"
  | Call_describe_index_stats string

fun is_create :: "call \<Rightarrow> bool" where
  "is_create (Call_create_index n d m) = True"
| "is_create c = False"

text \<open>
  The world a request runs in: the provider's state, the local file system (path to
  content) and the record of service calls.
\<close>

record 'r world =
  remote :: 'r
  disk :: filesystem
  calls :: "call list"

type_synonym ('r, 'a) io = "'r world \<Rightarrow> (exc + 'a) \<times> 'r world"

definition return_io :: "'a \<Rightarrow> ('r, 'a) io" where
  "return_io a w = (Inr a, w)"

definition raise_io :: "exc \<Rightarrow> ('r, 'a) io" where
  "raise_io e w = (Inl e, w)"

text \<open>Sequencing: an exception of the first part skips the rest.\<close>

definition bind_io :: "('r, 'a) io \<Rightarrow> ('a \<Rightarrow> ('r, 'b) io) \<Rightarrow> ('r, 'b) io" where
  "bind_io m f w = (case m w of (Inl e, w') \<Rightarrow> (Inl e, w') | (Inr a, w') \<Rightarrow> f a w')"

definition ext_read :: "call \<Rightarrow> ('r \<Rightarrow> exc + 'a) \<Rightarrow> ('r, 'a) io" where
  "ext_read c f w = (f (remote w), w\<lparr>calls := calls w @ [c]\<rparr>)"

definition ext_write :: "call \<Rightarrow> ('r \<Rightarrow> (exc + 'a) \<times> 'r) \<Rightarrow> ('r, 'a) io" where
  "ext_write c f w =
     (case f (remote w) of (res, r') \<Rightarrow> (res, w\<lparr>remote := r', calls := calls w @ [c]\<rparr>))"

section \<open>Vector Store Manager (server/models/vector_store.py)\<close>

text \<open>
  A constructed manager always holds its client and embeddings (the constructor
  raises otherwise), so its one varying field is \<open>vector_store\<close>: \<open>None\<close>, or the
  store over the index of that name. Every method is
  \<open>try: ... except Exception as e: logging.error(...); raise\<close>: the exception
  reaches the caller as it is, so the handler is the identity on results (logging is
  not modelled).
\<close>

record manager =
  vector_store :: "string option"

definition not_initialized :: exc where
  "not_initialized = ValueError ''Vector store not initialized''"

text \<open>\<open>__init__\<close> and \<open>_initialize\<close>\<close>

definition VectorStoreManager :: "'r services \<Rightarrow> config \<Rightarrow> ('r, manager) io" where
  "VectorStoreManager sv cfg =
     bind_io (ext_read Call_Pinecone (pinecone_Pinecone sv (PINECONE_API_KEY cfg))) (\<lambda>_.
     bind_io (ext_read Call_OpenAIEmbeddings (OpenAIEmbeddings sv (OPENAI_API_KEY cfg))) (\<lambda>_.
     let index_name = PINECONE_INDEX_NAME cfg in
     bind_io (ext_read Call_list_indexes (list_indexes sv)) (\<lambda>names.
     if index_name \<in> set names
     then bind_io (ext_read (Call_Index index_name) (pc_Index sv index_name)) (\<lambda>_.
          bind_io (ext_read (Call_langchain_Pinecone index_name)
                     (langchain_Pinecone sv index_name)) (\<lambda>_.
          return_io \<lparr> vector_store = Some index_name \<rparr>))
     else return_io \<lparr> vector_store = None \<rparr>)))"

definition init_index :: "'r services \<Rightarrow> config \<Rightarrow> int \<Rightarrow> manager \<Rightarrow> ('r, manager) io" where
  "init_index sv cfg dimension self =
     (let index_name = PINECONE_INDEX_NAME cfg in
      bind_io (ext_read Call_list_indexes (list_indexes sv)) (\<lambda>existing_indexes.
      bind_io (if index_name \<notin> set existing_indexes
               then ext_write (Call_create_index index_name dimension ''cosine'')
                      (create_index sv index_name dimension ''cosine'')
               else return_io ()) (\<lambda>_.
      bind_io (ext_read (Call_Index index_name) (pc_Index sv index_name)) (\<lambda>_.
      bind_io (ext_read (Call_langchain_Pinecone index_name)
                 (langchain_Pinecone sv index_name)) (\<lambda>_.
      return_io (self\<lparr>vector_store := Some index_name\<rparr>))))))"

definition add_documents :: "'r services \<Rightarrow> manager \<Rightarrow> document list \<Rightarrow> ('r, string list) io" where
  "add_documents sv self documents =
     (case vector_store self of
        None \<Rightarrow> raise_io not_initialized
      | Some vs \<Rightarrow>
          bind_io (ext_write (Call_add_documents vs documents) (vs_add_documents sv vs documents))
            (\<lambda>ids. return_io ids))"

definition similarity_search ::
  "'r services \<Rightarrow> manager \<Rightarrow> json \<Rightarrow> json \<Rightarrow> json \<Rightarrow> ('r, (document \<times> real) list) io" where
  "similarity_search sv self query k flt =
     (case vector_store self of
        None \<Rightarrow> raise_io not_initialized
      | Some vs \<Rightarrow>
          bind_io (ext_read (Call_similarity_search_with_score vs query k flt)
                     (vs_similarity_search_with_score sv vs query k flt))
            (\<lambda>results. return_io results))"

text \<open>
  \<open>xs[:k]\<close> for an integer \<open>k\<close>: the first \<open>k\<close> elements, and for a negative
  \<open>k\<close> all but the last \<open>-k\<close>.
\<close>

definition py_take :: "'a list \<Rightarrow> int \<Rightarrow> 'a list" where
  "py_take xs k = (if 0 \<le> k then take (nat k) xs else take (nat (int (length xs) + k)) xs)"

definition find_similar_documents ::
  "'r services \<Rightarrow> manager \<Rightarrow> string \<Rightarrow> int \<Rightarrow> ('r, (document \<times> real) list) io" where
  "find_similar_documents sv self doc_id k =
     (case vector_store self of
        None \<Rightarrow> raise_io not_initialized
      | Some vs \<Rightarrow>
          (let filter_dict = JObj [(''doc_id'', JStr doc_id)] in
           bind_io (ext_read (Call_similarity_search vs [] 1 (Some filter_dict))
                      (vs_similarity_search sv vs [] 1 (Some filter_dict)))
             (\<lambda>reference_docs.
                case reference_docs of
                  [] \<Rightarrow> raise_io (ValueError (''Document with ID '' @ doc_id @ '' not found''))
                | reference # _ \<Rightarrow>
                    (let reference_content = page_content reference in
                     bind_io (similarity_search sv self (JStr reference_content) (JInt (k + 1))
                                (JObj [(''doc_id'', JObj [(''$ne'', JStr doc_id)])]))
                       (\<lambda>results. return_io (py_take results k))))))"

definition delete_document :: "'r services \<Rightarrow> config \<Rightarrow> manager \<Rightarrow> string \<Rightarrow> ('r, bool) io" where
  "delete_document sv cfg self doc_id =
     (case vector_store self of
        None \<Rightarrow> raise_io not_initialized
      | Some vs \<Rightarrow>
          (let index = PINECONE_INDEX_NAME cfg in
           bind_io (ext_read (Call_Index index) (pc_Index sv index)) (\<lambda>_.
           bind_io (ext_read (Call_query index (Some (JObj [(''doc_id'', JStr doc_id)])) 10000)
                      (index_query sv index None (Some (JObj [(''doc_id'', JStr doc_id)])) 10000))
             (\<lambda>matches.
                if matches = [] then return_io False
                else (let ids_to_delete = map match_id matches in
                      bind_io (ext_write (Call_delete index ids_to_delete)
                                 (index_delete sv index ids_to_delete))
                        (\<lambda>_. return_io True))))))"

text \<open>
  \<open>list_documents\<close> groups the sampled matches in a dict keyed by the \<open>doc_id\<close>
  of their metadata, in order of first appearance, the entry keeping the \<open>doc_id\<close>
  first seen; a list or an object cannot be a key (TypeError).
\<close>

record listing =
  listing_doc_id :: json
  listing_filename :: json
  listing_upload_time :: json
  chunk_count :: int

fun hashable :: "json \<Rightarrow> bool" where
  "hashable (JList xs) = False"
| "hashable (JObj d) = False"
| "hashable v = True"

definition count_match :: "listing list \<Rightarrow> match \<Rightarrow> exc + listing list" where
  "count_match documents m =
     (case map_of (match_metadata m) ''doc_id'' of
        None \<Rightarrow> Inr documents
      | Some doc_id \<Rightarrow>
          if \<not> hashable doc_id
          then Inl (TypeError (''unhashable type: '' @ quote (type_name doc_id)))
          else
            (let documents' =
                   (if \<not> list_ex (\<lambda>d. key_eq (listing_doc_id d) doc_id) documents
                    then documents @
                           [\<lparr> listing_doc_id = doc_id,
                              listing_filename = dict_get (match_metadata m) ''filename'' (JStr ''Unknown''),
                              listing_upload_time = dict_get (match_metadata m) ''upload_time'' (JStr ''Unknown''),
                              chunk_count = 0 \<rparr>]
                    else documents)
             in Inr (map (\<lambda>d. if key_eq (listing_doc_id d) doc_id
                               then d\<lparr>chunk_count := chunk_count d + 1\<rparr> else d)
                       documents')))"

fun group_by_doc_id :: "listing list \<Rightarrow> match list \<Rightarrow> exc + listing list" where
  "group_by_doc_id documents [] = Inr documents"
| "group_by_doc_id documents (m # ms) =
     (case count_match documents m of
        Inl e \<Rightarrow> Inl e
      | Inr documents' \<Rightarrow> group_by_doc_id documents' ms)"

definition list_documents :: "'r services \<Rightarrow> config \<Rightarrow> manager \<Rightarrow> ('r, listing list) io" where
  "list_documents sv cfg self =
     (case vector_store self of
        None \<Rightarrow> raise_io not_initialized
      | Some vs \<Rightarrow>
          (let index = PINECONE_INDEX_NAME cfg in
           bind_io (ext_read (Call_Index index) (pc_Index sv index)) (\<lambda>_.
           bind_io (ext_read (Call_describe_index_stats index) (describe_index_stats sv index)) (\<lambda>stats.
           bind_io (ext_read (Call_query index None 100)
                      (index_query sv index (Some (replicate 1536 0)) None 100))
             (\<lambda>matches.
                case group_by_doc_id [] matches of
                  Inl e \<Rightarrow> raise_io e
                | Inr documents \<Rightarrow> return_io documents)))))"

definition get_stats :: "'r services \<Rightarrow> config \<Rightarrow> manager \<Rightarrow> ('r, dict) io" where
  "get_stats sv cfg self =
     (case vector_store self of
        None \<Rightarrow> raise_io not_initialized
      | Some vs \<Rightarrow>
          (let index = PINECONE_INDEX_NAME cfg in
           bind_io (ext_read (Call_Index index) (pc_Index sv index)) (\<lambda>_.
           bind_io (ext_read (Call_describe_index_stats index) (describe_index_stats sv index))
             (\<lambda>stats.
                return_io
                  [(''total_vectors'', JInt (total_vector_count stats)),
                   (''dimension'', JInt (stats_dimension stats)),
                   (''index_fullness'', JFloat (index_fullness stats)),
                   (''namespaces'',
                      JObj (case namespaces stats of None \<Rightarrow> [] | Some ns \<Rightarrow> ns))]))))"

section \<open>HTTP API (server/routes/documents.py, server/routes/search.py)\<close>

text \<open>
  A handler returns \<open>(jsonify(body), status)\<close>. Every handler is
  \<open>try: ... except Exception as e: return jsonify({'error': prefix + str(e)}), 500\<close>.
\<close>

type_synonym response = "dict \<times> int"

definition error_response :: "string \<Rightarrow> int \<Rightarrow> response" where
  "error_response msg status = ([(''error'', JStr msg)], status)"

definition lift_io :: "exc + 'a \<Rightarrow> ('r, 'a) io" where
  "lift_io r w = (r, w)"

subsection \<open>Upload\<close>

text \<open>
  The uploaded file of a multipart request, and \<open>request.files\<close>. What the handler
  takes from its environment is a parameter: werkzeug's \<open>secure_filename\<close>, the
  generated \<open>uuid4\<close>, the clock (\<open>utcnow env i\<close> is the timestamp read for chunk
  \<open>i\<close>), the exception \<open>file.save\<close> raises on a path if it does, and langchain's
  splitter with its chunk size and overlap.
\<close>

record file_storage =
  file_filename :: string
  file_content :: string

record upload_request =
  request_files :: "(string \<times> file_storage) list"

record upload_env =
  secure_filename :: "string \<Rightarrow> string"
  uuid4 :: string
  utcnow :: "nat \<Rightarrow> string"
  save_error :: "string \<Rightarrow> exc option"
  split_documents :: "int \<Rightarrow> int \<Rightarrow> document list \<Rightarrow> exc + document list"

definition file_save :: "upload_env \<Rightarrow> file_storage \<Rightarrow> string \<Rightarrow> ('r, unit) io" where
  "file_save env file temp_path w =
     (case save_error env temp_path of
        Some e \<Rightarrow> (Inl e, w)
      | None \<Rightarrow> (Inr (), w\<lparr>disk := (disk w)(temp_path \<mapsto> file_content file)\<rparr>))"

text \<open>The \<open>finally\<close> clause: \<open>if os.path.exists(temp_path): os.remove(temp_path)\<close>.\<close>

definition remove_if_exists :: "string \<Rightarrow> 'r world \<Rightarrow> 'r world" where
  "remove_if_exists temp_path w =
     (if disk w temp_path \<noteq> None then w\<lparr>disk := (disk w)(temp_path := None)\<rparr> else w)"

definition add_metadata :: "upload_env \<Rightarrow> string \<Rightarrow> string \<Rightarrow> document list \<Rightarrow> document list" where
  "add_metadata env doc_id filename texts =
     map (\<lambda>(i, text).
            text\<lparr>metadata :=
                   dict_update (metadata text)
                     [(''doc_id'', JStr doc_id),
                      (''filename'', JStr filename),
                      (''upload_time'', JStr (utcnow env i))]\<rparr>)
         (enumerate 0 texts)"

text \<open>The body of the inner \<open>try\<close>: load, split, tag, store.\<close>

definition process_upload ::
  "'r services \<Rightarrow> interpreter \<Rightarrow> readers \<Rightarrow> upload_env \<Rightarrow> config \<Rightarrow>
   string \<Rightarrow> string \<Rightarrow> string \<Rightarrow> ('r, response) io" where
  "process_upload sv py rd env cfg temp_path filename doc_id =
     bind_io (\<lambda>w. lift_io (load_document py rd (disk w) temp_path filename) w) (\<lambda>documents.
     bind_io (lift_io (split_documents env (CHUNK_SIZE cfg) (CHUNK_OVERLAP cfg) documents)) (\<lambda>split.
     let texts = add_metadata env doc_id filename split in
     bind_io (VectorStoreManager sv cfg) (\<lambda>vector_store.
     bind_io (add_documents sv vector_store texts) (\<lambda>_.
     return_io
       ([(''success'', JBool True),
         (''doc_id'', JStr doc_id),
         (''filename'', JStr filename),
         (''chunks_created'', JInt (int (length texts))),
         (''message'', JStr ''Document processed and stored successfully'')], 201)))))"

definition upload_document ::
  "'r services \<Rightarrow> interpreter \<Rightarrow> readers \<Rightarrow> upload_env \<Rightarrow> config \<Rightarrow> upload_request \<Rightarrow>
   'r world \<Rightarrow> response \<times> 'r world" where
  "upload_document sv py rd env cfg request w =
     (case map_of (request_files request) ''file'' of
        None \<Rightarrow> (error_response ''No file provided'' 400, w)
      | Some file \<Rightarrow>
          if file_filename file = [] then (error_response ''No file selected'' 400, w)
          else if \<not> allowed_file py cfg (file_filename file)
          then (error_response ''File type not allowed'' 400, w)
          else
            (let filename = secure_filename env (file_filename file);
                 doc_id = uuid4 env;
                 temp_path = ''/tmp/'' @ doc_id @ ''_'' @ filename
             in case file_save env file temp_path w of
                  (Inl e, w1) \<Rightarrow>
                    (error_response (''Failed to process document: '' @ str_exc e) 500, w1)
                | (Inr _, w1) \<Rightarrow>
                    (case process_upload sv py rd env cfg temp_path filename doc_id w1 of
                       (res, w2) \<Rightarrow>
                         (let w3 = remove_if_exists temp_path w2
                          in case res of
                               Inl e \<Rightarrow>
                                 (error_response
                                    (''Failed to process document: '' @ str_exc e) 500, w3)
                             | Inr resp \<Rightarrow> (resp, w3)))))"

subsection \<open>List and delete\<close>

definition listing_json :: "listing \<Rightarrow> json" where
  "listing_json d =
     JObj [(''doc_id'', listing_doc_id d),
           (''filename'', listing_filename d),
           (''upload_time'', listing_upload_time d),
           (''chunk_count'', JInt (chunk_count d))]"

definition list_documents_route :: "'r services \<Rightarrow> config \<Rightarrow> 'r world \<Rightarrow> response \<times> 'r world" where
  "list_documents_route sv cfg w =
     (case bind_io (VectorStoreManager sv cfg) (\<lambda>vector_store.
             list_documents sv cfg vector_store) w of
        (Inl e, w') \<Rightarrow> (error_response (''Failed to list documents: '' @ str_exc e) 500, w')
      | (Inr documents, w') \<Rightarrow>
          (([(''success'', JBool True),
             (''documents'', JList (map listing_json documents))], 200), w'))"

definition delete_document_route ::
  "'r services \<Rightarrow> config \<Rightarrow> string \<Rightarrow> 'r world \<Rightarrow> response \<times> 'r world" where
  "delete_document_route sv cfg doc_id w =
     (case bind_io (VectorStoreManager sv cfg) (\<lambda>vector_store.
             delete_document sv cfg vector_store doc_id) w of
        (Inl e, w') \<Rightarrow> (error_response (''Failed to delete document: '' @ str_exc e) 500, w')
      | (Inr success, w') \<Rightarrow>
          if success
          then (([(''success'', JBool True),
                  (''message'', JStr (''Document '' @ doc_id @ '' deleted successfully''))], 200), w')
          else (error_response ''Document not found'' 404, w'))"

subsection \<open>Search\<close>

text \<open>
  The body of a search request. \<open>request.get_json()\<close> yields the parsed JSON value
  of the body, whatever its shape; for a request that has no JSON body the framework
  raises (415 Unsupported Media Type, or 400 Bad Request for an empty body sent as
  JSON), and that exception is a parameter. The handler reads \<open>query\<close>, \<open>k\<close> and
  \<open>filter\<close> off the value and passes them on unchecked.
\<close>

datatype request_body = NoBody | Body json

definition get_json :: "exc \<Rightarrow> request_body \<Rightarrow> exc + json" where
  "get_json no_json body = (case body of NoBody \<Rightarrow> Inl no_json | Body data \<Rightarrow> Inr data)"

definition format_results :: "(document \<times> real) list \<Rightarrow> json list" where
  "format_results results =
     map (\<lambda>(doc, score).
            JObj [(''content'', JStr (page_content doc)),
                  (''metadata'', JObj (metadata doc)),
                  (''similarity_score'', JFloat score)])
         results"

text \<open>\<open>not data or 'query' not in data\<close>, the second test made only of a truthy value.\<close>

definition query_missing :: "interpreter \<Rightarrow> json \<Rightarrow> exc + bool" where
  "query_missing py data =
     (if \<not> truthy data then Inr True
      else case py_contains py ''query'' data of
             Inl e \<Rightarrow> Inl e
           | Inr found \<Rightarrow> Inr (\<not> found))"

definition search_documents ::
  "'r services \<Rightarrow> interpreter \<Rightarrow> config \<Rightarrow> exc \<Rightarrow> request_body \<Rightarrow> 'r world \<Rightarrow>
   response \<times> 'r world" where
  "search_documents sv py cfg no_json body w =
     (case bind_io (lift_io (get_json no_json body)) (\<lambda>data.
           bind_io (lift_io (query_missing py data)) (\<lambda>missing.
           if missing then return_io (error_response ''Query is required'' 400)
           else
             bind_io (lift_io (py_getitem py data ''query'')) (\<lambda>query.
             bind_io (lift_io (py_get py data ''k'' (JInt 5))) (\<lambda>k.
             bind_io (lift_io (py_get py data ''filter'' (JObj []))) (\<lambda>filter_metadata.
             bind_io (VectorStoreManager sv cfg) (\<lambda>vector_store.
             bind_io (similarity_search sv vector_store query k filter_metadata) (\<lambda>results.
             let formatted_results = format_results results in
             return_io
               ([(''success'', JBool True),
                 (''query'', query),
                 (''results'', JList formatted_results),
                 (''total_results'', JInt (int (length formatted_results)))], 200)))))))) w of
        (Inl e, w') \<Rightarrow> (error_response (''Search failed: '' @ str_exc e) 500, w')
      | (Inr resp, w') \<Rightarrow> (resp, w'))"

text \<open>
  The body of a similar-documents request is taken with the types the API documents:
  a \<open>doc_id\<close> string and an integer \<open>k\<close>, each present or not; \<open>parsed\<close> is the
  outcome of \<open>request.get_json()\<close>: such an object, \<open>None\<close>, or the exception
  raised.
\<close>

record similar_body =
  body_doc_id :: "string option"
  similar_k :: "int option"

definition find_similar_documents_route ::
  "'r services \<Rightarrow> config \<Rightarrow> exc + similar_body option \<Rightarrow> 'r world \<Rightarrow> response \<times> 'r world" where
  "find_similar_documents_route sv cfg parsed w =
     (case parsed of
        Inl e \<Rightarrow> (error_response (''Failed to find similar documents: '' @ str_exc e) 500, w)
      | Inr None \<Rightarrow> (error_response ''Document ID is required'' 400, w)
      | Inr (Some data) \<Rightarrow>
          (case body_doc_id data of
             None \<Rightarrow> (error_response ''Document ID is required'' 400, w)
           | Some doc_id \<Rightarrow>
               (let k = (case similar_k data of None \<Rightarrow> 5 | Some n \<Rightarrow> n)
                in case bind_io (VectorStoreManager sv cfg) (\<lambda>vector_store.
                          find_similar_documents sv vector_store doc_id k) w of
                     (Inl e, w') \<Rightarrow>
                       (error_response
                          (''Failed to find similar documents: '' @ str_exc e) 500, w')
                   | (Inr results, w') \<Rightarrow>
                       (let formatted_results = format_results results
                        in (([(''success'', JBool True),
                              (''reference_doc_id'', JStr doc_id),
                              (''similar_documents'', JList formatted_results),
                              (''total_results'', JInt (int (length formatted_results)))],
                             200), w')))))"

definition get_search_stats :: "'r services \<Rightarrow> config \<Rightarrow> 'r world \<Rightarrow> response \<times> 'r world" where
  "get_search_stats sv cfg w =
     (case bind_io (VectorStoreManager sv cfg) (\<lambda>vector_store.
             get_stats sv cfg vector_store) w of
        (Inl e, w') \<Rightarrow> (error_response (''Failed to get stats: '' @ str_exc e) 500, w')
      | (Inr stats, w') \<Rightarrow>
          (([(''success'', JBool True), (''stats'', JObj stats)], 200), w'))"

section \<open>An in-memory provider\<close>

text \<open>
  A small provider to run the definitions on: its state is the list of indexes, each
  with its stored vectors (id and document) in insertion order. A search returns the
  stored documents that satisfy the metadata filter, in stored order, each with score
  1. A filter is an object of conditions, \<open>field: value\<close> (equal) or
  \<open>field: {"$ne": value}\<close> (not equal); the scored search wants an integer for
  \<open>k\<close>. Ids are handed out in unary.
\<close>

type_synonym mem = "(string \<times> (string \<times> document) list) list"

fun cond_holds :: "dict \<Rightarrow> string \<times> json \<Rightarrow> bool" where
  "cond_holds md (field, JObj [(op, v)]) =
     (if op = ''$ne'' then map_of md field \<noteq> Some v
      else map_of md field = Some (JObj [(op, v)]))"
| "cond_holds md (field, v) = (map_of md field = Some v)"

fun meta_matches :: "json option \<Rightarrow> dict \<Rightarrow> bool" where
  "meta_matches (Some (JObj conds)) md = list_all (cond_holds md) conds"
| "meta_matches flt md = True"

definition mem_lookup :: "mem \<Rightarrow> string \<Rightarrow> exc + (string \<times> document) list" where
  "mem_lookup r name =
     (case map_of r name of
        None \<Rightarrow> Inl (OtherError ''index not found'')
      | Some stored \<Rightarrow> Inr stored)"

definition mem_search :: "string \<Rightarrow> int \<Rightarrow> json option \<Rightarrow> mem \<Rightarrow> exc + (string \<times> document) list" where
  "mem_search name k flt r =
     (case mem_lookup r name of
        Inl e \<Rightarrow> Inl e
      | Inr stored \<Rightarrow>
          Inr (take (nat k) (filter (\<lambda>(i, d). meta_matches flt (metadata d)) stored)))"

definition mem_store :: "string \<Rightarrow> ((string \<times> document) list \<Rightarrow> (string \<times> document) list) \<Rightarrow> mem \<Rightarrow> mem" where
  "mem_store name f r = map (\<lambda>(n, stored). if n = name then (n, f stored) else (n, stored)) r"

definition mem_ids :: "nat \<Rightarrow> nat \<Rightarrow> string list" where
  "mem_ids used n = map (\<lambda>i. replicate (Suc i) CHR ''v'') [used ..< used + n]"

definition mem_services :: "mem services" where
  "mem_services =
     \<lparr> pinecone_Pinecone = (\<lambda>key r. Inr ()),
       OpenAIEmbeddings = (\<lambda>key r. Inr ()),
       list_indexes = (\<lambda>r. Inr (map fst r)),
       create_index = (\<lambda>name d metric r.
          if name \<in> set (map fst r) then (Inl (OtherError ''index already exists''), r)
          else (Inr (), r @ [(name, [])])),
       pc_Index = (\<lambda>name r. case mem_lookup r name of Inl e \<Rightarrow> Inl e | Inr stored \<Rightarrow> Inr ()),
       langchain_Pinecone = (\<lambda>name r. Inr ()),
       vs_add_documents = (\<lambda>name documents r.
          case mem_lookup r name of
            Inl e \<Rightarrow> (Inl e, r)
          | Inr stored \<Rightarrow>
              (let ids = mem_ids (length stored) (length documents)
               in (Inr ids, mem_store name (\<lambda>old. old @ zip ids documents) r))),
       vs_similarity_search = (\<lambda>name query k flt r.
          case mem_search name k flt r of Inl e \<Rightarrow> Inl e | Inr found \<Rightarrow> Inr (map snd found)),
       vs_similarity_search_with_score = (\<lambda>name query k flt r.
          case k of
            JInt n \<Rightarrow>
              (case mem_search name n (Some flt) r of
                 Inl e \<Rightarrow> Inl e
               | Inr found \<Rightarrow> Inr (map (\<lambda>(i, d). (d, 1)) found))
          | _ \<Rightarrow> Inl (OtherError ''top_k must be an integer'')),
       index_query = (\<lambda>name vec flt k r.
          case mem_search name k flt r of
            Inl e \<Rightarrow> Inl e
          | Inr found \<Rightarrow>
              Inr (map (\<lambda>(i, d). \<lparr> match_id = i, match_metadata = metadata d, match_score = 1 \<rparr>)
                     found)),
       index_delete = (\<lambda>name ids r.
          (Inr (), mem_store name (filter (\<lambda>(i, d). i \<notin> set ids)) r)),
       describe_index_stats = (\<lambda>name r.
          case mem_lookup r name of
            Inl e \<Rightarrow> Inl e
          | Inr stored \<Rightarrow>
              Inr \<lparr> total_vector_count = int (length stored), stats_dimension = 1536,
                    index_fullness = 0, namespaces = None \<rparr>) \<rparr>"

text \<open>
  A state with the default index holding two chunks of document \<open>a\<close> and one of
  \<open>b\<close>; a state with no index; readers that read text files off the disk and have
  no other library installed; an interpreter for ASCII text, its errors worded after
  CPython 3.12; an upload environment with fixed id and clock.
\<close>

definition chunk :: "string \<Rightarrow> string \<Rightarrow> document" where
  "chunk doc_id text = \<lparr> page_content = text, metadata = [(''doc_id'', JStr doc_id)] \<rparr>"

definition stocked :: "mem world" where
  "stocked =
     \<lparr> remote = [(''langchain-documents'',
                   [(''v'', chunk ''a'' ''alpha''),
                    (''vv'', chunk ''a'' ''alpha again''),
                    (''vvv'', chunk ''b'' ''beta'')])],
       disk = Map.empty,
       calls = [] \<rparr>"

definition blank :: "mem world" where
  "blank = \<lparr> remote = [], disk = Map.empty, calls = [] \<rparr>"

definition plain_readers :: readers where
  "plain_readers =
     \<lparr> read_text = (\<lambda>fsys path.
          case fsys path of
            None \<Rightarrow> Inl (OtherError ''No such file or directory'')
          | Some content \<Rightarrow> Inr content),
       read_pdf = (\<lambda>fsys path. Inl (ImportError ''No module named PyPDF2'')),
       read_docx = (\<lambda>fsys path. Inl (OtherError ''Package not found'')),
       read_xlsx = (\<lambda>fsys path. Inl (ImportError ''No module named openpyxl'')) \<rparr>"

definition plain_interpreter :: interpreter where
  "plain_interpreter =
     \<lparr> unicode_lower = (\<lambda>s. s),
       unicode_blank = (\<lambda>s. False),
       not_iterable = (\<lambda>v. TypeError (''argument of type '' @ quote (type_name v)
                                       @ '' is not iterable'')),
       not_subscriptable = (\<lambda>v.
          case v of
            JList xs \<Rightarrow> TypeError ''list indices must be integers or slices, not str''
          | JStr s \<Rightarrow> TypeError ''string indices must be integers, not 'str' ''
          | _ \<Rightarrow> TypeError (quote (type_name v) @ '' object is not subscriptable'')),
       no_get = (\<lambda>v. AttributeError (quote (type_name v)
                                       @ '' object has no attribute '' @ quote ''get'')) \<rparr>"

definition fixed_env :: upload_env where
  "fixed_env =
     \<lparr> secure_filename = (\<lambda>name. name),
       uuid4 = ''u1'',
       utcnow = (\<lambda>i. ''2024-01-01T00:00:00''),
       save_error = (\<lambda>path. None),
       split_documents = (\<lambda>size overlap documents. Inr documents) \<rparr>"

section \<open>What is asked of the services\<close>

text \<open>
  The provider honours a not-equal filter on \<open>doc_id\<close>: no document it returns for
  such a search has that \<open>doc_id\<close> in its metadata.
\<close>

definition honours_ne :: "'r services \<Rightarrow> bool" where
  "honours_ne sv =
     (\<forall>vs query n doc_id r results.
        vs_similarity_search_with_score sv vs query n
          (JObj [(''doc_id'', JObj [(''$ne'', JStr doc_id)])]) r = Inr results \<longrightarrow>
        (\<forall>(doc, score) \<in> set results. map_of (metadata doc) ''doc_id'' \<noteq> Some (JStr doc_id)))"

text \<open>
  The constructor of the manager finds its store: the two clients are built, the
  configured index is listed and its handle is obtained.
\<close>

definition store_ready :: "'r services \<Rightarrow> config \<Rightarrow> 'r \<Rightarrow> bool" where
  "store_ready sv cfg r =
     (pinecone_Pinecone sv (PINECONE_API_KEY cfg) r = Inr () \<and>
      OpenAIEmbeddings sv (OPENAI_API_KEY cfg) r = Inr () \<and>
      (case list_indexes sv r of
         Inl e \<Rightarrow> False
       | Inr names \<Rightarrow> PINECONE_INDEX_NAME cfg \<in> set names) \<and>
      pc_Index sv (PINECONE_INDEX_NAME cfg) r = Inr () \<and>
      langchain_Pinecone sv (PINECONE_INDEX_NAME cfg) r = Inr ())"

text \<open>An index that was created is listed from then on.\<close>

definition create_then_listed :: "'r services \<Rightarrow> bool" where
  "create_then_listed sv =
     (\<forall>name d metric r r' names.
        create_index sv name d metric r = (Inr (), r') \<longrightarrow>
        list_indexes sv r' = Inr names \<longrightarrow> name \<in> set names)"

section \<open>Properties of the upload gate\<close>

lemma rsplit_dot_append:
  "CHR ''.'' \<notin> set e \<Longrightarrow> rsplit_dot (stem @ CHR ''.'' # e) = [stem, e]"
  by (simp add: rsplit_dot_def takeWhile_append dropWhile_append)

lemma allowed_file_no_dot: "CHR ''.'' \<notin> set filename \<Longrightarrow> \<not> allowed_file py cfg filename"
  by (simp add: allowed_file_def)

lemma allowed_file_append:
  "CHR ''.'' \<notin> set e \<Longrightarrow>
   allowed_file py cfg (stem @ CHR ''.'' # e) = (lower py e \<in> ALLOWED_EXTENSIONS cfg)"
  by (simp add: allowed_file_def rsplit_dot_append)

lemma lower_ascii: "list_all is_ascii s \<Longrightarrow> lower py s = map lower_char s"
  by (simp add: lower_def)

lemma upload_document_not_allowed:
  assumes "map_of (request_files request) ''file'' = Some file"
      and "\<not> allowed_file py cfg (file_filename file)"
  shows "snd (fst (upload_document sv py rd env cfg request w)) = 400"
    and "snd (upload_document sv py rd env cfg request w) = w"
  using assms by (simp_all add: upload_document_def error_response_def)

text \<open>
  C10 (as amended). For every file name, \<open>allowed_file\<close> is false when the name has
  no dot, and an upload of such a name is answered 400. Only the extension of the file
  (the part after its last dot) is lower-cased before it is looked up in the allowed
  extensions: when every allowed extension is itself lower-case, as the default ones
  are, a name whose extension differs from an allowed one only in letter case is
  accepted.
\<close>

theorem allowed_file_dot_and_case:
  "(CHR ''.'' \<notin> set filename \<longrightarrow>
      \<not> allowed_file py cfg filename \<and>
      (map_of (request_files request) ''file'' = Some file \<and> file_filename file = filename \<longrightarrow>
         snd (fst (upload_document sv py rd env cfg request w)) = 400))
   \<and> (CHR ''.'' \<notin> set e \<and> a \<in> ALLOWED_EXTENSIONS cfg \<and> lower py e = lower py a \<and>
        (\<forall>x \<in> ALLOWED_EXTENSIONS cfg. lower py x = x) \<longrightarrow>
      allowed_file py cfg (stem @ ''.'' @ e))"
proof (intro conjI impI)
  assume "CHR ''.'' \<notin> set filename"
  then show "\<not> allowed_file py cfg filename" by (rule allowed_file_no_dot)
next
  assume nd: "CHR ''.'' \<notin> set filename"
    and f: "map_of (request_files request) ''file'' = Some file \<and> file_filename file = filename"
  from nd f have "\<not> allowed_file py cfg (file_filename file)"
    by (simp add: allowed_file_no_dot)
  with f show "snd (fst (upload_document sv py rd env cfg request w)) = 400"
    by (simp add: upload_document_not_allowed)
next
  assume h: "CHR ''.'' \<notin> set e \<and> a \<in> ALLOWED_EXTENSIONS cfg \<and> lower py e = lower py a \<and>
        (\<forall>x \<in> ALLOWED_EXTENSIONS cfg. lower py x = x)"
  then have "lower py a = a" by blast
  with h have le: "lower py e \<in> ALLOWED_EXTENSIONS cfg" by simp
  from h have nd: "CHR ''.'' \<notin> set e" by blast
  show "allowed_file py cfg (stem @ ''.'' @ e)"
    using allowed_file_append [OF nd] le by simp
qed

theorem allowed_file_dot_and_case_witness:
  "CHR ''.'' \<notin> set ''README'' \<and> \<not> allowed_file plain_interpreter Config ''README''
   \<and> snd (fst (upload_document mem_services plain_interpreter plain_readers fixed_env Config
        \<lparr>request_files = [(''file'', \<lparr>file_filename = ''README'', file_content = ''hi''\<rparr>)]\<rparr>
        stocked)) = 400
   \<and> CHR ''.'' \<notin> set ''PdF'' \<and> ''pdf'' \<in> ALLOWED_EXTENSIONS Config
   \<and> lower plain_interpreter ''PdF'' = lower plain_interpreter ''pdf''
   \<and> ALLOWED_EXTENSIONS Config = {''pdf'', ''txt'', ''docx'', ''xlsx''}
   \<and> lower plain_interpreter ''pdf'' = ''pdf'' \<and> lower plain_interpreter ''txt'' = ''txt''
   \<and> lower plain_interpreter ''docx'' = ''docx'' \<and> lower plain_interpreter ''xlsx'' = ''xlsx''
   \<and> allowed_file plain_interpreter Config (''report.v2'' @ ''.'' @ ''PdF'')"
  using allowed_file_dot_and_case [where filename = "''README''" and cfg = Config
      and request = "\<lparr>request_files = [(''file'', \<lparr>file_filename = ''README'', file_content = ''hi''\<rparr>)]\<rparr>"
      and ?file = "\<lparr>file_filename = ''README'', file_content = ''hi''\<rparr>"
      and sv = mem_services and py = plain_interpreter and rd = plain_readers
      and env = fixed_env and w = stocked and e = "''PdF''" and a = "''pdf''"
      and stem = "''report.v2''"]
  by (simp add: Config_def lower_def is_ascii_def lower_char_def)

text \<open>
  C10 as stated, for every configuration, fails: the allowed extensions are compared as
  configured. With \<open>PDF\<close> as the one allowed extension, \<open>a.pdf\<close> differs from it
  only in letter case and is rejected, and so is \<open>a.PDF\<close>.
\<close>

theorem allowed_file_upper_case_config_counterexample:
  "''PDF'' \<in> ALLOWED_EXTENSIONS (Config\<lparr>ALLOWED_EXTENSIONS := {''PDF''}\<rparr>)
   \<and> CHR ''.'' \<notin> set ''pdf''
   \<and> lower plain_interpreter ''pdf'' = lower plain_interpreter ''PDF''
   \<and> \<not> allowed_file plain_interpreter (Config\<lparr>ALLOWED_EXTENSIONS := {''PDF''}\<rparr>)
         (''a'' @ ''.'' @ ''pdf'')
   \<and> \<not> allowed_file plain_interpreter (Config\<lparr>ALLOWED_EXTENSIONS := {''PDF''}\<rparr>)
         (''a'' @ ''.'' @ ''PDF'')"
  using allowed_file_append [where e = "''pdf''" and stem = "''a''" and py = plain_interpreter
      and cfg = "Config\<lparr>ALLOWED_EXTENSIONS := {''PDF''}\<rparr>"]
    allowed_file_append [where e = "''PDF''" and stem = "''a''" and py = plain_interpreter
      and cfg = "Config\<lparr>ALLOWED_EXTENSIONS := {''PDF''}\<rparr>"]
  by (simp add: lower_def is_ascii_def lower_char_def)

section \<open>Properties of the document loader\<close>

lemma declared_extension:
  "CHR ''.'' \<notin> set ext \<Longrightarrow> py_index (rsplit_dot (stem @ CHR ''.'' # ext)) (Suc 0) = Inr ext"
  by (simp add: rsplit_dot_append py_index_def)

lemma load_document_wraps:
  assumes "CHR ''.'' \<notin> set ext"
  shows "load_document py rd fsys file_path (stem @ CHR ''.'' # ext) =
           (case load_by_ext py rd fsys file_path (lower py ext) of
              Inl e \<Rightarrow> Inl (ValueError (''Error loading '' @ lower py ext @ '' file: '' @ str_exc e))
            | Inr documents \<Rightarrow> Inr documents)"
  using assms by (simp add: load_document_def declared_extension Let_def)

lemma except_ImportError_other:
  "\<not> is_ImportError e \<Longrightarrow> except_ImportError msg (Inl e) = Inl e"
  by (simp add: except_ImportError_def)

text \<open>
  C5. For a file name with a declared extension (the part after its last dot, lower-cased),
  \<open>load_document\<close> fails with an error that reports the unsupported type when the
  extension is none of txt, pdf, docx, xlsx. For a supported extension, whatever the
  body of the loader raises is re-raised as the generic load error
  \<open>Error loading <ext> file: <message>\<close>, with the message of the failure in it; so
  is a failure of the text reader, and a failure of the pdf, docx or xlsx reader (an
  ImportError, which is a missing library and not a failed read, is first replaced by
  the handler of its branch).
\<close>

theorem load_document_errors:
  assumes "CHR ''.'' \<notin> set ext" and "file_ext = lower py ext"
  shows
    "(file_ext \<notin> {''txt'', ''pdf'', ''docx'', ''xlsx''} \<longrightarrow>
        load_document py rd fsys file_path (stem @ ''.'' @ ext) =
          Inl (ValueError (''Error loading '' @ file_ext @ '' file: ''
                             @ ''Unsupported file type: '' @ file_ext)))
     \<and> (file_ext \<in> {''txt'', ''pdf'', ''docx'', ''xlsx''} \<longrightarrow>
          (load_by_ext py rd fsys file_path file_ext = Inl e \<longrightarrow>
             load_document py rd fsys file_path (stem @ ''.'' @ ext) =
               Inl (ValueError (''Error loading '' @ file_ext @ '' file: '' @ str_exc e)))
        \<and> (file_ext = ''txt'' \<and> read_text rd fsys file_path = Inl e \<longrightarrow>
             load_document py rd fsys file_path (stem @ ''.'' @ ext) =
               Inl (ValueError (''Error loading txt file: '' @ str_exc e)))
        \<and> (\<not> is_ImportError e \<and>
             (file_ext = ''pdf'' \<and> read_pdf rd fsys file_path = Inl e \<or>
              file_ext = ''docx'' \<and> read_docx rd fsys file_path = Inl e \<or>
              file_ext = ''xlsx'' \<and> read_xlsx rd fsys file_path = Inl e) \<longrightarrow>
             load_document py rd fsys file_path (stem @ ''.'' @ ext) =
               Inl (ValueError (''Error loading '' @ file_ext @ '' file: '' @ str_exc e))))"
proof -
  have wrap: "load_document py rd fsys file_path (stem @ ''.'' @ ext) =
           (case load_by_ext py rd fsys file_path file_ext of
              Inl e \<Rightarrow> Inl (ValueError (''Error loading '' @ file_ext @ '' file: '' @ str_exc e))
            | Inr documents \<Rightarrow> Inr documents)"
    using load_document_wraps [OF assms(1)] unfolding assms(2) by simp
  have unsupported: "file_ext \<notin> {''txt'', ''pdf'', ''docx'', ''xlsx''} \<Longrightarrow>
      load_by_ext py rd fsys file_path file_ext = Inl (ValueError (''Unsupported file type: '' @ file_ext))"
    by (simp add: load_by_ext_def)
  have from_text: "read_text rd fsys file_path = Inl e \<Longrightarrow>
      load_by_ext py rd fsys file_path ''txt'' = Inl e"
    by (simp add: load_by_ext_def)
  have from_pdf: "\<not> is_ImportError e \<Longrightarrow> read_pdf rd fsys file_path = Inl e \<Longrightarrow>
      load_by_ext py rd fsys file_path ''pdf'' = Inl e"
    by (simp add: load_by_ext_def except_ImportError_other)
  have from_docx: "\<not> is_ImportError e \<Longrightarrow> read_docx rd fsys file_path = Inl e \<Longrightarrow>
      load_by_ext py rd fsys file_path ''docx'' = Inl e"
    by (simp add: load_by_ext_def except_ImportError_other)
  have from_xlsx: "\<not> is_ImportError e \<Longrightarrow> read_xlsx rd fsys file_path = Inl e \<Longrightarrow>
      load_by_ext py rd fsys file_path ''xlsx'' = Inl e"
    by (simp add: load_by_ext_def except_ImportError_other)
  show ?thesis
  proof (intro conjI impI)
    assume "file_ext \<notin> {''txt'', ''pdf'', ''docx'', ''xlsx''}"
    from unsupported [OF this] wrap
    show "load_document py rd fsys file_path (stem @ ''.'' @ ext) =
          Inl (ValueError (''Error loading '' @ file_ext @ '' file: ''
                             @ ''Unsupported file type: '' @ file_ext))"
      by simp
  next
    assume "load_by_ext py rd fsys file_path file_ext = Inl e"
    with wrap show "load_document py rd fsys file_path (stem @ ''.'' @ ext) =
               Inl (ValueError (''Error loading '' @ file_ext @ '' file: '' @ str_exc e))"
      by simp
  next
    assume h: "file_ext = ''txt'' \<and> read_text rd fsys file_path = Inl e"
    with from_text have "load_by_ext py rd fsys file_path file_ext = Inl e" by simp
    with wrap have "load_document py rd fsys file_path (stem @ ''.'' @ ext) =
               Inl (ValueError (''Error loading '' @ file_ext @ '' file: '' @ str_exc e))"
      by simp
    with h show "load_document py rd fsys file_path (stem @ ''.'' @ ext) =
               Inl (ValueError (''Error loading txt file: '' @ str_exc e))"
      by simp
  next
    assume h: "\<not> is_ImportError e \<and>
             (file_ext = ''pdf'' \<and> read_pdf rd fsys file_path = Inl e \<or>
              file_ext = ''docx'' \<and> read_docx rd fsys file_path = Inl e \<or>
              file_ext = ''xlsx'' \<and> read_xlsx rd fsys file_path = Inl e)"
    then have "load_by_ext py rd fsys file_path file_ext = Inl e"
      using from_pdf from_docx from_xlsx by blast
    with wrap show "load_document py rd fsys file_path (stem @ ''.'' @ ext) =
               Inl (ValueError (''Error loading '' @ file_ext @ '' file: '' @ str_exc e))"
      by simp
  qed
qed

lemma load_document_missing_library:
  assumes "CHR ''.'' \<notin> set ext" and "lower py ext = ''pdf''"
      and "read_pdf rd fsys file_path = Inl (ImportError m)"
  shows "load_document py rd fsys file_path (stem @ CHR ''.'' # ext) =
           Inl (ValueError ''Error loading pdf file: PyPDF2 is required for PDF processing'')"
  using assms by (simp add: load_document_wraps load_by_ext_def except_ImportError_def)

theorem load_document_errors_witness:
  "CHR ''.'' \<notin> set ''EXE'' \<and> ''exe'' = lower plain_interpreter ''EXE''
   \<and> ''exe'' \<notin> {''txt'', ''pdf'', ''docx'', ''xlsx''}
   \<and> load_document plain_interpreter plain_readers Map.empty ''/tmp/u1_setup.EXE'' (''setup'' @ ''.'' @ ''EXE'') =
        Inl (ValueError ''Error loading exe file: Unsupported file type: exe'')
   \<and> CHR ''.'' \<notin> set ''Docx'' \<and> ''docx'' = lower plain_interpreter ''Docx''
   \<and> ''docx'' \<in> {''txt'', ''pdf'', ''docx'', ''xlsx''}
   \<and> \<not> is_ImportError (OtherError ''Package not found'')
   \<and> read_docx plain_readers Map.empty ''/tmp/u1_a.Docx'' = Inl (OtherError ''Package not found'')
   \<and> load_by_ext plain_interpreter plain_readers Map.empty ''/tmp/u1_a.Docx'' ''docx'' =
        Inl (OtherError ''Package not found'')
   \<and> load_document plain_interpreter plain_readers Map.empty ''/tmp/u1_a.Docx'' (''a'' @ ''.'' @ ''Docx'') =
        Inl (ValueError ''Error loading docx file: Package not found'')
   \<and> CHR ''.'' \<notin> set ''txt'' \<and> ''txt'' = lower plain_interpreter ''txt''
   \<and> read_text plain_readers Map.empty ''/tmp/u1_b.txt'' =
        Inl (OtherError ''No such file or directory'')
   \<and> load_document plain_interpreter plain_readers Map.empty ''/tmp/u1_b.txt'' (''b'' @ ''.'' @ ''txt'') =
        Inl (ValueError ''Error loading txt file: No such file or directory'')"
  using load_document_errors [where ext = "''EXE''" and file_ext = "''exe''"
      and py = plain_interpreter and rd = plain_readers and fsys = Map.empty
      and file_path = "''/tmp/u1_setup.EXE''" and stem = "''setup''" and e = "OtherError []"]
    load_document_errors [where ext = "''Docx''" and file_ext = "''docx''"
      and py = plain_interpreter and rd = plain_readers and fsys = Map.empty
      and file_path = "''/tmp/u1_a.Docx''" and stem = "''a''"
      and e = "OtherError ''Package not found''"]
    load_document_errors [where ext = "''txt''" and file_ext = "''txt''"
      and py = plain_interpreter and rd = plain_readers and fsys = Map.empty
      and file_path = "''/tmp/u1_b.txt''" and stem = "''b''"
      and e = "OtherError ''No such file or directory''"]
  by (simp add: lower_def is_ascii_def lower_char_def plain_readers_def load_by_ext_def
      except_ImportError_def)

section \<open>Properties of the Vector Store Manager\<close>

text \<open>
  C3. Every operation of a manager whose \<open>vector_store\<close> is \<open>None\<close> fails with the
  not-initialized error, for every argument, before any service is called: the world
  is as it was.
\<close>

theorem uninitialized_store_fails:
  assumes "vector_store self = None"
  shows "add_documents sv self documents w = (Inl (ValueError ''Vector store not initialized''), w)
     \<and> similarity_search sv self query top_k flt w =
           (Inl (ValueError ''Vector store not initialized''), w)
     \<and> find_similar_documents sv self doc_id k w =
           (Inl (ValueError ''Vector store not initialized''), w)
     \<and> delete_document sv cfg self doc_id w =
           (Inl (ValueError ''Vector store not initialized''), w)
     \<and> list_documents sv cfg self w = (Inl (ValueError ''Vector store not initialized''), w)
     \<and> get_stats sv cfg self w = (Inl (ValueError ''Vector store not initialized''), w)"
  using assms
  by (simp add: add_documents_def similarity_search_def find_similar_documents_def
      delete_document_def list_documents_def get_stats_def raise_io_def not_initialized_def)

theorem uninitialized_store_fails_witness:
  "vector_store \<lparr>vector_store = None\<rparr> = None
   \<and> add_documents mem_services \<lparr>vector_store = None\<rparr> [chunk ''a'' ''alpha''] blank =
        (Inl (ValueError ''Vector store not initialized''), blank)
   \<and> similarity_search mem_services \<lparr>vector_store = None\<rparr> (JStr ''alpha'') (JInt 5) JNull blank =
        (Inl (ValueError ''Vector store not initialized''), blank)
   \<and> find_similar_documents mem_services \<lparr>vector_store = None\<rparr> ''a'' 5 blank =
        (Inl (ValueError ''Vector store not initialized''), blank)
   \<and> delete_document mem_services Config \<lparr>vector_store = None\<rparr> ''a'' blank =
        (Inl (ValueError ''Vector store not initialized''), blank)
   \<and> list_documents mem_services Config \<lparr>vector_store = None\<rparr> blank =
        (Inl (ValueError ''Vector store not initialized''), blank)
   \<and> get_stats mem_services Config \<lparr>vector_store = None\<rparr> blank =
        (Inl (ValueError ''Vector store not initialized''), blank)"
  using uninitialized_store_fails [where self = "\<lparr>vector_store = None\<rparr>"
      and sv = mem_services and documents = "[chunk ''a'' ''alpha'']" and w = blank
      and query = "JStr ''alpha''" and top_k = "JInt 5" and flt = JNull and doc_id = "''a''"
      and k = 5
      and cfg = Config]
  by simp

text \<open>The in-memory provider, field by field, and the managers it gives.\<close>

lemma mem_services_sel:
  "pinecone_Pinecone mem_services key r = Inr ()"
  "OpenAIEmbeddings mem_services key r = Inr ()"
  "list_indexes mem_services r = Inr (map fst r)"
  "create_index mem_services name d metric r =
     (if name \<in> set (map fst r) then (Inl (OtherError ''index already exists''), r)
      else (Inr (), r @ [(name, [])]))"
  "pc_Index mem_services name r =
     (case mem_lookup r name of Inl e \<Rightarrow> Inl e | Inr stored \<Rightarrow> Inr ())"
  "langchain_Pinecone mem_services name r = Inr ()"
  "vs_similarity_search mem_services name query k flt r =
     (case mem_search name k flt r of Inl e \<Rightarrow> Inl e | Inr found \<Rightarrow> Inr (map snd found))"
  "vs_similarity_search_with_score mem_services name jquery (JInt n) jflt r =
     (case mem_search name n (Some jflt) r of
        Inl e \<Rightarrow> Inl e
      | Inr found \<Rightarrow> Inr (map (\<lambda>(i, d). (d, 1)) found))"
  "index_query mem_services name vec flt k r =
     (case mem_search name k flt r of
        Inl e \<Rightarrow> Inl e
      | Inr found \<Rightarrow>
          Inr (map (\<lambda>(i, d). \<lparr> match_id = i, match_metadata = metadata d, match_score = 1 \<rparr>)
                 found))"
  "index_delete mem_services name ids r =
     (Inr (), mem_store name (filter (\<lambda>(i, d). i \<notin> set ids)) r)"
  by (simp_all add: mem_services_def)

lemma find_similar_documents_Inr:
  assumes "find_similar_documents sv self doc_id k w = (Inr results, w')"
  shows "\<exists>vs reference rest found.
           vector_store self = Some vs
         \<and> vs_similarity_search sv vs [] 1 (Some (JObj [(''doc_id'', JStr doc_id)])) (remote w)
             = Inr (reference # rest)
         \<and> vs_similarity_search_with_score sv vs (JStr (page_content reference)) (JInt (k + 1))
              (JObj [(''doc_id'', JObj [(''$ne'', JStr doc_id)])]) (remote w) = Inr found
         \<and> results = py_take found k
         \<and> w' = w\<lparr>calls := calls w @
                  [Call_similarity_search vs [] 1 (Some (JObj [(''doc_id'', JStr doc_id)])),
                   Call_similarity_search_with_score vs (JStr (page_content reference)) (JInt (k + 1))
                     (JObj [(''doc_id'', JObj [(''$ne'', JStr doc_id)])])]\<rparr>"
  using assms
  by (auto simp: find_similar_documents_def similarity_search_def bind_io_def ext_read_def
      return_io_def raise_io_def Let_def
      split: option.splits list.splits sum.splits)

lemma py_take_subset: "set (py_take xs k) \<subseteq> set xs"
  by (auto simp: py_take_def dest: in_set_takeD)

lemma py_take_length: "0 \<le> k \<Longrightarrow> int (length (py_take xs k)) \<le> k"
  by (simp add: py_take_def)

text \<open>
  C1 (as amended). For every \<open>doc_id\<close> and every \<open>k \<ge> 0\<close>, with a provider that
  honours the not-equal filter: a successful \<open>find_similar_documents\<close> returns no
  entry whose metadata \<open>doc_id\<close> is the reference \<open>doc_id\<close>, and at most \<open>k\<close>
  entries, though the search it made of the provider asked for \<open>k + 1\<close>. The
  exclusion holds for every \<open>k\<close>.
\<close>

theorem find_similar_excludes_reference:
  assumes "honours_ne sv"
      and "find_similar_documents sv self doc_id k w = (Inr results, w')"
  shows "(\<forall>(doc, score) \<in> set results. map_of (metadata doc) ''doc_id'' \<noteq> Some (JStr doc_id))
       \<and> (0 \<le> k \<longrightarrow> int (length results) \<le> k)
       \<and> (\<exists>vs query.
             calls w' = calls w @
               [Call_similarity_search vs [] 1 (Some (JObj [(''doc_id'', JStr doc_id)])),
                Call_similarity_search_with_score vs query (JInt (k + 1))
                  (JObj [(''doc_id'', JObj [(''$ne'', JStr doc_id)])])])"
proof -
  from find_similar_documents_Inr [OF assms(2)] obtain vs and reference :: document and found where
    found: "vs_similarity_search_with_score sv vs (JStr (page_content reference)) (JInt (k + 1))
              (JObj [(''doc_id'', JObj [(''$ne'', JStr doc_id)])]) (remote w) = Inr found"
    and results: "results = py_take found k"
    and w': "w' = w\<lparr>calls := calls w @
                  [Call_similarity_search vs [] 1 (Some (JObj [(''doc_id'', JStr doc_id)])),
                   Call_similarity_search_with_score vs (JStr (page_content reference)) (JInt (k + 1))
                     (JObj [(''doc_id'', JObj [(''$ne'', JStr doc_id)])])]\<rparr>"
    by auto
  from assms(1) found
  have "\<forall>(doc, score) \<in> set found. map_of (metadata doc) ''doc_id'' \<noteq> Some (JStr doc_id)"
    unfolding honours_ne_def by blast
  with results py_take_subset [of found k]
  have excluded: "\<forall>(doc, score) \<in> set results. map_of (metadata doc) ''doc_id'' \<noteq> Some (JStr doc_id)"
    by blast
  from results have bound: "0 \<le> k \<longrightarrow> int (length results) \<le> k"
    by (simp add: py_take_length)
  from w' have "\<exists>vs query.
             calls w' = calls w @
               [Call_similarity_search vs [] 1 (Some (JObj [(''doc_id'', JStr doc_id)])),
                Call_similarity_search_with_score vs query (JInt (k + 1))
                  (JObj [(''doc_id'', JObj [(''$ne'', JStr doc_id)])])]"
    by auto
  with excluded bound show ?thesis by blast
qed

lemma mem_honours_ne: "honours_ne mem_services"
  by (auto simp: honours_ne_def mem_services_def mem_search_def
      split: sum.splits json.splits dest!: in_set_takeD)

theorem find_similar_excludes_reference_witness:
  "honours_ne mem_services
   \<and> find_similar_documents mem_services \<lparr>vector_store = Some ''langchain-documents''\<rparr> ''a'' 1
        (stocked\<lparr>remote := [(''langchain-documents'',
            [(''v'', chunk ''a'' ''alpha''), (''vv'', chunk ''b'' ''beta''),
             (''vvv'', chunk ''c'' ''gamma''), (''vvvv'', chunk ''d'' ''delta'')])]\<rparr>) =
       (Inr [(chunk ''b'' ''beta'', 1)],
        stocked\<lparr>remote := [(''langchain-documents'',
            [(''v'', chunk ''a'' ''alpha''), (''vv'', chunk ''b'' ''beta''),
             (''vvv'', chunk ''c'' ''gamma''), (''vvvv'', chunk ''d'' ''delta'')])],
          calls := [Call_similarity_search ''langchain-documents'' [] 1
                      (Some (JObj [(''doc_id'', JStr ''a'')])),
                    Call_similarity_search_with_score ''langchain-documents'' (JStr ''alpha'') (JInt 2)
                      (JObj [(''doc_id'', JObj [(''$ne'', JStr ''a'')])])]\<rparr>)
   \<and> map_of (metadata (chunk ''b'' ''beta'')) ''doc_id'' \<noteq> Some (JStr ''a'')
   \<and> (0::int) \<le> 1
   \<and> int (length [(chunk ''b'' ''beta'', 1::real)]) \<le> 1"
  using find_similar_excludes_reference [OF mem_honours_ne,
      where self = "\<lparr>vector_store = Some ''langchain-documents''\<rparr>" and doc_id = "''a''"
        and k = 1 and w = "stocked\<lparr>remote := [(''langchain-documents'',
            [(''v'', chunk ''a'' ''alpha''), (''vv'', chunk ''b'' ''beta''),
             (''vvv'', chunk ''c'' ''gamma''), (''vvvv'', chunk ''d'' ''delta'')])]\<rparr>"]
    mem_honours_ne
  by (simp add: find_similar_documents_def similarity_search_def bind_io_def ext_read_def
      return_io_def raise_io_def Let_def mem_services_sel mem_search_def mem_lookup_def
      stocked_def chunk_def py_take_def)

text \<open>
  C1 as stated, for every \<open>k\<close>, fails: \<open>k\<close> reaches the method as the request gave
  it, and for a negative \<open>k\<close> the slice \<open>results[:k]\<close> drops from the end. With
  \<open>k = -1\<close> the call succeeds with an empty list, which is not at most \<open>-1\<close>
  entries.
\<close>

theorem find_similar_negative_k_counterexample:
  "honours_ne mem_services
   \<and> find_similar_documents mem_services \<lparr>vector_store = Some ''langchain-documents''\<rparr> ''a''
        (- 1) stocked =
       (Inr [],
        stocked\<lparr>calls := [Call_similarity_search ''langchain-documents'' [] 1
                             (Some (JObj [(''doc_id'', JStr ''a'')])),
                           Call_similarity_search_with_score ''langchain-documents''
                             (JStr ''alpha'') (JInt 0)
                             (JObj [(''doc_id'', JObj [(''$ne'', JStr ''a'')])])]\<rparr>)
   \<and> \<not> int (length ([] :: (document \<times> real) list)) \<le> - 1"
  using mem_honours_ne
  by (simp add: find_similar_documents_def similarity_search_def bind_io_def ext_read_def
      return_io_def raise_io_def Let_def mem_services_sel mem_search_def mem_lookup_def
      stocked_def chunk_def py_take_def)


section \<open>Properties of the routes\<close>

lemma VectorStoreManager_ready:
  assumes "store_ready sv cfg (remote w)"
  shows "VectorStoreManager sv cfg w =
           (Inr \<lparr>vector_store = Some (PINECONE_INDEX_NAME cfg)\<rparr>,
            w\<lparr>calls := calls w @ [Call_Pinecone, Call_OpenAIEmbeddings, Call_list_indexes,
                                  Call_Index (PINECONE_INDEX_NAME cfg),
                                  Call_langchain_Pinecone (PINECONE_INDEX_NAME cfg)]\<rparr>)"
  using assms
  by (auto simp: store_ready_def VectorStoreManager_def bind_io_def ext_read_def return_io_def
      Let_def split: sum.splits)

lemma delete_document_none:
  assumes "vector_store self = Some vs"
      and "pc_Index sv (PINECONE_INDEX_NAME cfg) (remote w) = Inr ()"
      and "index_query sv (PINECONE_INDEX_NAME cfg) None
             (Some (JObj [(''doc_id'', JStr doc_id)])) 10000 (remote w) = Inr []"
  shows "fst (delete_document sv cfg self doc_id w) = Inr False"
  using assms
  by (simp add: delete_document_def bind_io_def ext_read_def return_io_def Let_def)

lemma delete_document_some:
  assumes "vector_store self = Some vs"
      and "pc_Index sv (PINECONE_INDEX_NAME cfg) (remote w) = Inr ()"
      and "index_query sv (PINECONE_INDEX_NAME cfg) None
             (Some (JObj [(''doc_id'', JStr doc_id)])) 10000 (remote w) = Inr matches"
      and "matches \<noteq> []"
      and "fst (index_delete sv (PINECONE_INDEX_NAME cfg) (map match_id matches) (remote w)) = Inr ()"
  shows "fst (delete_document sv cfg self doc_id w) = Inr True"
  using assms
  by (auto simp: delete_document_def bind_io_def ext_read_def ext_write_def return_io_def Let_def
      split: prod.splits)

lemma delete_document_route_status:
  assumes "store_ready sv cfg (remote w)"
  shows "fst (delete_document_route sv cfg doc_id w) =
           (case fst (delete_document sv cfg \<lparr>vector_store = Some (PINECONE_INDEX_NAME cfg)\<rparr> doc_id
                        (w\<lparr>calls := calls w @ [Call_Pinecone, Call_OpenAIEmbeddings,
                            Call_list_indexes, Call_Index (PINECONE_INDEX_NAME cfg),
                            Call_langchain_Pinecone (PINECONE_INDEX_NAME cfg)]\<rparr>)) of
              Inl e \<Rightarrow> error_response (''Failed to delete document: '' @ str_exc e) 500
            | Inr success \<Rightarrow>
                if success
                then ([(''success'', JBool True),
                       (''message'', JStr (''Document '' @ doc_id @ '' deleted successfully''))], 200)
                else error_response ''Document not found'' 404)"
  by (simp add: delete_document_route_def bind_io_def VectorStoreManager_ready [OF assms]
      split: prod.splits sum.splits)

text \<open>
  C2. With the store found by the manager's constructor: when the query for the vectors
  of a \<open>doc_id\<close> matches none, \<open>delete_document\<close> returns false, raising nothing,
  and the DELETE endpoint answers 404 with an \<open>error\<close> body; when it matches at least
  one and the provider deletes them, \<open>delete_document\<close> returns true and the endpoint
  answers 200 with \<open>success\<close> and \<open>message\<close>.
\<close>

theorem delete_document_found_or_not:
  assumes "store_ready sv cfg (remote w)"
      and "vector_store self = Some vs"
      and "index_query sv (PINECONE_INDEX_NAME cfg) None
             (Some (JObj [(''doc_id'', JStr doc_id)])) 10000 (remote w) = Inr matches"
  shows "(matches = [] \<longrightarrow>
            fst (delete_document sv cfg self doc_id w) = Inr False
          \<and> fst (delete_document_route sv cfg doc_id w) =
              ([(''error'', JStr ''Document not found'')], 404))
       \<and> (matches \<noteq> [] \<and>
          fst (index_delete sv (PINECONE_INDEX_NAME cfg) (map match_id matches) (remote w)) = Inr ()
          \<longrightarrow>
            fst (delete_document sv cfg self doc_id w) = Inr True
          \<and> fst (delete_document_route sv cfg doc_id w) =
              ([(''success'', JBool True),
                (''message'', JStr (''Document '' @ doc_id @ '' deleted successfully''))], 200))"
proof -
  let ?w = "w\<lparr>calls := calls w @ [Call_Pinecone, Call_OpenAIEmbeddings, Call_list_indexes,
                                   Call_Index (PINECONE_INDEX_NAME cfg),
                                   Call_langchain_Pinecone (PINECONE_INDEX_NAME cfg)]\<rparr>"
  let ?m = "\<lparr>vector_store = Some (PINECONE_INDEX_NAME cfg)\<rparr>"
  from assms(1) have idx: "pc_Index sv (PINECONE_INDEX_NAME cfg) (remote w) = Inr ()"
    by (simp add: store_ready_def)
  have vm: "vector_store ?m = Some (PINECONE_INDEX_NAME cfg)" by simp
  show ?thesis
  proof (intro conjI impI)
    assume "matches = []"
    with assms(3) have q: "index_query sv (PINECONE_INDEX_NAME cfg) None
             (Some (JObj [(''doc_id'', JStr doc_id)])) 10000 (remote w) = Inr []" by simp
    from delete_document_none [OF assms(2) idx q]
    show "fst (delete_document sv cfg self doc_id w) = Inr False" .
    from q idx have "fst (delete_document sv cfg ?m doc_id ?w) = Inr False"
      by (intro delete_document_none [OF vm]) simp_all
    then show "fst (delete_document_route sv cfg doc_id w) =
              ([(''error'', JStr ''Document not found'')], 404)"
      by (simp add: delete_document_route_status [OF assms(1)] error_response_def)
  next
    assume h: "matches \<noteq> [] \<and>
          fst (index_delete sv (PINECONE_INDEX_NAME cfg) (map match_id matches) (remote w)) = Inr ()"
    then have ne: "matches \<noteq> []"
      and del: "fst (index_delete sv (PINECONE_INDEX_NAME cfg) (map match_id matches) (remote w)) = Inr ()"
      by simp_all
    from delete_document_some [OF assms(2) idx assms(3) ne del]
    show "fst (delete_document sv cfg self doc_id w) = Inr True" .
    from idx assms(3) ne del have "fst (delete_document sv cfg ?m doc_id ?w) = Inr True"
      by (intro delete_document_some [OF vm]) simp_all
    then show "fst (delete_document_route sv cfg doc_id w) =
              ([(''success'', JBool True),
                (''message'', JStr (''Document '' @ doc_id @ '' deleted successfully''))], 200)"
      by (simp add: delete_document_route_status [OF assms(1)])
  qed
qed

lemma stocked_ready: "store_ready mem_services Config (remote stocked)"
  by (simp add: store_ready_def mem_services_sel stocked_def Config_def mem_lookup_def)

theorem delete_document_found_or_not_witness:
  "store_ready mem_services Config (remote stocked)
   \<and> index_query mem_services (PINECONE_INDEX_NAME Config) None
        (Some (JObj [(''doc_id'', JStr ''zz'')])) 10000 (remote stocked) = Inr []
   \<and> fst (delete_document mem_services Config \<lparr>vector_store = Some ''langchain-documents''\<rparr>
            ''zz'' stocked) = Inr False
   \<and> fst (delete_document_route mem_services Config ''zz'' stocked) =
        ([(''error'', JStr ''Document not found'')], 404)
   \<and> index_query mem_services (PINECONE_INDEX_NAME Config) None
        (Some (JObj [(''doc_id'', JStr ''b'')])) 10000 (remote stocked) =
        Inr [\<lparr>match_id = ''vvv'', match_metadata = [(''doc_id'', JStr ''b'')], match_score = 1\<rparr>]
   \<and> fst (index_delete mem_services (PINECONE_INDEX_NAME Config) [''vvv''] (remote stocked)) = Inr ()
   \<and> fst (delete_document mem_services Config \<lparr>vector_store = Some ''langchain-documents''\<rparr>
            ''b'' stocked) = Inr True
   \<and> fst (delete_document_route mem_services Config ''b'' stocked) =
        ([(''success'', JBool True), (''message'', JStr ''Document b deleted successfully'')], 200)"
proof -
  have q0: "index_query mem_services (PINECONE_INDEX_NAME Config) None
        (Some (JObj [(''doc_id'', JStr ''zz'')])) 10000 (remote stocked) = Inr []"
    by (simp add: mem_services_sel mem_search_def mem_lookup_def stocked_def Config_def chunk_def)
  have q1: "index_query mem_services (PINECONE_INDEX_NAME Config) None
        (Some (JObj [(''doc_id'', JStr ''b'')])) 10000 (remote stocked) =
        Inr [\<lparr>match_id = ''vvv'', match_metadata = [(''doc_id'', JStr ''b'')], match_score = 1\<rparr>]"
    by (simp add: mem_services_sel mem_search_def mem_lookup_def stocked_def Config_def chunk_def)
  have m: "vector_store \<lparr>vector_store = Some ''langchain-documents''\<rparr> = Some ''langchain-documents''"
    by simp
  show ?thesis
    using delete_document_found_or_not [OF stocked_ready m q0]
      delete_document_found_or_not [OF stocked_ready m q1] stocked_ready q0 q1
    by (simp add: mem_services_sel)
qed

text \<open>
  C4. A request for the documents similar to a \<open>doc_id\<close> that matches no stored chunk
  is answered 500, with the manager's not-found message passed through the handler of
  the route; the DELETE route answers 404 for the same condition.
\<close>

theorem similar_missing_document_500:
  assumes "store_ready sv cfg (remote w)"
      and "vs_similarity_search sv (PINECONE_INDEX_NAME cfg) [] 1
             (Some (JObj [(''doc_id'', JStr doc_id)])) (remote w) = Inr []"
  shows "fst (find_similar_documents_route sv cfg
                (Inr (Some \<lparr>body_doc_id = Some doc_id, similar_k = k\<rparr>)) w) =
           ([(''error'', JStr (''Failed to find similar documents: ''
                                @ ''Document with ID '' @ doc_id @ '' not found''))], 500)"
  using assms(2)
  by (simp add: find_similar_documents_route_def bind_io_def VectorStoreManager_ready [OF assms(1)]
      find_similar_documents_def ext_read_def raise_io_def error_response_def Let_def)

theorem similar_missing_document_500_witness:
  "store_ready mem_services Config (remote stocked)
   \<and> vs_similarity_search mem_services (PINECONE_INDEX_NAME Config) [] 1
        (Some (JObj [(''doc_id'', JStr ''zz'')])) (remote stocked) = Inr []
   \<and> fst (find_similar_documents_route mem_services Config
             (Inr (Some \<lparr>body_doc_id = Some ''zz'', similar_k = None\<rparr>)) stocked) =
        ([(''error'', JStr ''Failed to find similar documents: Document with ID zz not found'')],
         500)"
proof -
  have q: "vs_similarity_search mem_services (PINECONE_INDEX_NAME Config) [] 1
        (Some (JObj [(''doc_id'', JStr ''zz'')])) (remote stocked) = Inr []"
    by (simp add: mem_services_sel mem_search_def mem_lookup_def stocked_def Config_def chunk_def)
  show ?thesis
    using similar_missing_document_500 [OF stocked_ready q, of None] stocked_ready q
    by simp
qed

section \<open>Properties of the upload route\<close>

lemma process_upload_disk:
  "disk (snd (process_upload sv py rd env cfg temp_path filename doc_id w)) = disk w"
  by (auto simp: process_upload_def bind_io_def lift_io_def return_io_def raise_io_def
      VectorStoreManager_def add_documents_def ext_read_def ext_write_def Let_def not_initialized_def
      split: sum.splits prod.splits option.splits)

lemma upload_document_processed:
  assumes "map_of (request_files request) ''file'' = Some file"
      and "allowed_file py cfg (file_filename file)"
      and "temp_path = ''/tmp/'' @ uuid4 env @ ''_'' @ secure_filename env (file_filename file)"
      and "save_error env temp_path = None"
  shows "snd (upload_document sv py rd env cfg request w) =
           remove_if_exists temp_path
             (snd (process_upload sv py rd env cfg temp_path (secure_filename env (file_filename file))
                     (uuid4 env) (w\<lparr>disk := (disk w)(temp_path \<mapsto> file_content file)\<rparr>)))"
proof -
  from assms(2) have "file_filename file \<noteq> []"
    by (auto simp: allowed_file_def)
  with assms show ?thesis
    by (simp add: upload_document_def file_save_def Let_def split: prod.splits sum.splits)
qed

text \<open>
  C6. For every upload that passes the gate and whose file is saved at the temporary
  path, whatever the readers, the splitter and the services answer (each may succeed or
  raise), the temporary file is not on disk when the handler returns, and every other
  path of the disk is as it was.
\<close>

theorem upload_removes_temporary_file:
  assumes "map_of (request_files request) ''file'' = Some file"
      and "allowed_file py cfg (file_filename file)"
      and "temp_path = ''/tmp/'' @ uuid4 env @ ''_'' @ secure_filename env (file_filename file)"
      and "save_error env temp_path = None"
  shows "temp_path \<notin> dom (disk (snd (upload_document sv py rd env cfg request w)))
       \<and> (\<forall>path. path \<noteq> temp_path \<longrightarrow>
             disk (snd (upload_document sv py rd env cfg request w)) path = disk w path)"
  unfolding upload_document_processed [OF assms]
  by (simp add: remove_if_exists_def process_upload_disk)


lemma stocked_add_documents:
  "vs_add_documents mem_services ''langchain-documents'' documents (remote stocked) =
     (Inr (mem_ids 3 (length documents)),
      [(''langchain-documents'',
        [(''v'', chunk ''a'' ''alpha''), (''vv'', chunk ''a'' ''alpha again''),
         (''vvv'', chunk ''b'' ''beta'')] @ zip (mem_ids 3 (length documents)) documents)])"
  by (simp add: mem_services_def mem_lookup_def mem_store_def stocked_def Let_def
      numeral_3_eq_3)

lemma Config_sel:
  "PINECONE_API_KEY Config = None"
  "PINECONE_INDEX_NAME Config = ''langchain-documents''"
  "OPENAI_API_KEY Config = None"
  "CHUNK_SIZE Config = 1000"
  "CHUNK_OVERLAP Config = 200"
  by (simp_all add: Config_def)

theorem upload_removes_temporary_file_witness:
  "map_of (request_files
        \<lparr>request_files = [(''file'', \<lparr>file_filename = ''n.txt'', file_content = ''hello''\<rparr>)]\<rparr>)
      ''file'' = Some \<lparr>file_filename = ''n.txt'', file_content = ''hello''\<rparr>
   \<and> allowed_file plain_interpreter Config ''n.txt''
   \<and> save_error fixed_env ''/tmp/u1_n.txt'' = None
   \<and> snd (fst (upload_document mem_services plain_interpreter plain_readers fixed_env Config
        \<lparr>request_files = [(''file'', \<lparr>file_filename = ''n.txt'', file_content = ''hello''\<rparr>)]\<rparr>
        (stocked\<lparr>disk := [''/tmp/keep'' \<mapsto> ''kept'']\<rparr>))) = 201
   \<and> ''/tmp/u1_n.txt'' \<notin> dom (disk (snd (upload_document mem_services plain_interpreter plain_readers fixed_env Config
        \<lparr>request_files = [(''file'', \<lparr>file_filename = ''n.txt'', file_content = ''hello''\<rparr>)]\<rparr>
        (stocked\<lparr>disk := [''/tmp/keep'' \<mapsto> ''kept'']\<rparr>))))
   \<and> disk (snd (upload_document mem_services plain_interpreter plain_readers fixed_env Config
        \<lparr>request_files = [(''file'', \<lparr>file_filename = ''n.txt'', file_content = ''hello''\<rparr>)]\<rparr>
        (stocked\<lparr>disk := [''/tmp/keep'' \<mapsto> ''kept'']\<rparr>))) ''/tmp/keep'' = Some ''kept''
   \<and> allowed_file plain_interpreter Config ''n.pdf''
   \<and> snd (fst (upload_document mem_services plain_interpreter plain_readers fixed_env Config
        \<lparr>request_files = [(''file'', \<lparr>file_filename = ''n.pdf'', file_content = ''hello''\<rparr>)]\<rparr>
        (stocked\<lparr>disk := [''/tmp/keep'' \<mapsto> ''kept'']\<rparr>))) = 500
   \<and> ''/tmp/u1_n.pdf'' \<notin> dom (disk (snd (upload_document mem_services plain_interpreter plain_readers fixed_env Config
        \<lparr>request_files = [(''file'', \<lparr>file_filename = ''n.pdf'', file_content = ''hello''\<rparr>)]\<rparr>
        (stocked\<lparr>disk := [''/tmp/keep'' \<mapsto> ''kept'']\<rparr>))))"
proof -
  let ?txt = "\<lparr>file_filename = ''n.txt'', file_content = ''hello''\<rparr>"
  let ?pdf = "\<lparr>file_filename = ''n.pdf'', file_content = ''hello''\<rparr>"
  let ?w = "stocked\<lparr>disk := [''/tmp/keep'' \<mapsto> ''kept'']\<rparr>"
  have a1: "allowed_file plain_interpreter Config ''n.txt''"
    using allowed_file_append [where e = "''txt''" and cfg = Config and stem = "''n''"
        and py = plain_interpreter]
    by (simp add: Config_def lower_def is_ascii_def lower_char_def)
  have a2: "allowed_file plain_interpreter Config ''n.pdf''"
    using allowed_file_append [where e = "''pdf''" and cfg = Config and stem = "''n''"
        and py = plain_interpreter]
    by (simp add: Config_def lower_def is_ascii_def lower_char_def)
  have r: "store_ready mem_services Config (remote (stocked\<lparr>disk := d\<rparr>))" for d
    using stocked_ready by simp
  have l1: "load_document plain_interpreter plain_readers ((disk ?w)(''/tmp/u1_n.txt'' \<mapsto> ''hello'')) ''/tmp/u1_n.txt'' ''n.txt''
      = Inr [\<lparr>page_content = ''hello'', metadata = [(''source'', JStr ''/tmp/u1_n.txt'')]\<rparr>]"
    using load_document_wraps [where ext = "''txt''" and py = plain_interpreter
        and rd = plain_readers and file_path = "''/tmp/u1_n.txt''" and stem = "''n''"]
    by (simp add: load_by_ext_def plain_readers_def lower_def is_ascii_def lower_char_def)
  have l2: "load_document plain_interpreter plain_readers ((disk ?w)(''/tmp/u1_n.pdf'' \<mapsto> ''hello'')) ''/tmp/u1_n.pdf'' ''n.pdf''
      = Inl (ValueError ''Error loading pdf file: PyPDF2 is required for PDF processing'')"
    using load_document_wraps [where ext = "''pdf''" and py = plain_interpreter
        and rd = plain_readers and file_path = "''/tmp/u1_n.pdf''" and stem = "''n''"]
    by (simp add: load_by_ext_def plain_readers_def lower_def is_ascii_def lower_char_def except_ImportError_def)
  have s1: "snd (fst (upload_document mem_services plain_interpreter plain_readers fixed_env Config
        \<lparr>request_files = [(''file'', ?txt)]\<rparr> ?w)) = 201"
    using a1 l1
    by (simp add: upload_document_def file_save_def fixed_env_def process_upload_def bind_io_def
        lift_io_def return_io_def VectorStoreManager_ready [OF r] add_documents_def ext_write_def
        stocked_add_documents Config_sel Let_def)
  have s2: "snd (fst (upload_document mem_services plain_interpreter plain_readers fixed_env Config
        \<lparr>request_files = [(''file'', ?pdf)]\<rparr> ?w)) = 500"
    using a2 l2
    by (simp add: upload_document_def file_save_def fixed_env_def process_upload_def bind_io_def
        lift_io_def error_response_def Let_def)
  show ?thesis
    using upload_removes_temporary_file [where request = "\<lparr>request_files = [(''file'', ?txt)]\<rparr>"
        and ?file = ?txt and cfg = Config and temp_path = "''/tmp/u1_n.txt''" and env = fixed_env
        and sv = mem_services and py = plain_interpreter and rd = plain_readers and w = ?w]
      upload_removes_temporary_file [where request = "\<lparr>request_files = [(''file'', ?pdf)]\<rparr>"
        and ?file = ?pdf and cfg = Config and temp_path = "''/tmp/u1_n.pdf''" and env = fixed_env
        and sv = mem_services and py = plain_interpreter and rd = plain_readers and w = ?w]
      a1 a2 s1 s2
    by (simp add: fixed_env_def)
qed

text \<open>
  C7. An upload whose file name is not allowed is answered 400 with an \<open>error\<close> body
  and leaves the world as it was: no call to a service is recorded (no manager is
  constructed), nothing is written to disk, the provider's state is untouched.
\<close>

theorem upload_rejects_disallowed_extension:
  assumes "map_of (request_files request) ''file'' = Some file"
      and "\<not> allowed_file py cfg (file_filename file)"
  shows "(\<exists>msg. fst (upload_document sv py rd env cfg request w) = ([(''error'', JStr msg)], 400))
       \<and> snd (upload_document sv py rd env cfg request w) = w
       \<and> calls (snd (upload_document sv py rd env cfg request w)) = calls w
       \<and> disk (snd (upload_document sv py rd env cfg request w)) = disk w
       \<and> remote (snd (upload_document sv py rd env cfg request w)) = remote w"
  using assms by (simp add: upload_document_def error_response_def)

theorem upload_rejects_disallowed_extension_witness:
  "map_of (request_files
        \<lparr>request_files = [(''file'', \<lparr>file_filename = ''setup.exe'', file_content = ''MZ''\<rparr>)]\<rparr>)
      ''file'' = Some \<lparr>file_filename = ''setup.exe'', file_content = ''MZ''\<rparr>
   \<and> \<not> allowed_file plain_interpreter Config ''setup.exe''
   \<and> upload_document mem_services plain_interpreter plain_readers fixed_env Config
        \<lparr>request_files = [(''file'', \<lparr>file_filename = ''setup.exe'', file_content = ''MZ''\<rparr>)]\<rparr>
        stocked = (([(''error'', JStr ''File type not allowed'')], 400), stocked)
   \<and> calls (snd (upload_document mem_services plain_interpreter plain_readers fixed_env Config
        \<lparr>request_files = [(''file'', \<lparr>file_filename = ''setup.exe'', file_content = ''MZ''\<rparr>)]\<rparr>
        stocked)) = []"
proof -
  have na: "\<not> allowed_file plain_interpreter Config ''setup.exe''"
    using allowed_file_append [where e = "''exe''" and cfg = Config and stem = "''setup''"
        and py = plain_interpreter]
    by (simp add: Config_def lower_def is_ascii_def lower_char_def)
  show ?thesis
    using upload_rejects_disallowed_extension [where
        request = "\<lparr>request_files = [(''file'', \<lparr>file_filename = ''setup.exe'', file_content = ''MZ''\<rparr>)]\<rparr>"
        and ?file = "\<lparr>file_filename = ''setup.exe'', file_content = ''MZ''\<rparr>" and cfg = Config
        and sv = mem_services and py = plain_interpreter and rd = plain_readers
        and env = fixed_env and w = stocked] na
    by (simp add: upload_document_def error_response_def stocked_def)
qed

section \<open>Properties of the search route\<close>

lemma stocked_sel:
  "remote stocked =
     [(''langchain-documents'',
       [(''v'', chunk ''a'' ''alpha''), (''vv'', chunk ''a'' ''alpha again''),
        (''vvv'', chunk ''b'' ''beta'')])]"
  "disk stocked = Map.empty"
  "calls stocked = []"
  by (simp_all add: stocked_def)

lemma format_results_entries:
  "entry \<in> set (format_results results) \<Longrightarrow>
   \<exists>content md score.
     entry = JObj [(''content'', JStr content), (''metadata'', JObj md),
                   (''similarity_score'', JFloat score)]"
  by (auto simp: format_results_def)

lemma format_results_length: "length (format_results results) = length results"
  by (simp add: format_results_def)

lemma query_missing_falsy: "\<not> truthy data \<Longrightarrow> query_missing py data = Inr True"
  by (simp add: query_missing_def)

lemma query_missing_object:
  "query_missing py (JObj d) = Inr (map_of d ''query'' = None)"
  by (cases d) (auto simp: query_missing_def)

lemma search_documents_missing:
  assumes "query_missing py data = Inr True"
  shows "search_documents sv py cfg no_json (Body data) w =
           (([(''error'', JStr ''Query is required'')], 400), w)"
  using assms
  by (simp add: search_documents_def get_json_def bind_io_def lift_io_def return_io_def
      error_response_def)

lemma search_documents_found:
  assumes "map_of d ''query'' = Some query"
      and "bind_io (VectorStoreManager sv cfg) (\<lambda>vector_store.
             similarity_search sv vector_store query (dict_get d ''k'' (JInt 5))
               (dict_get d ''filter'' (JObj []))) w = (Inr results, w')"
  shows "search_documents sv py cfg no_json (Body (JObj d)) w =
           (([(''success'', JBool True), (''query'', query),
              (''results'', JList (format_results results)),
              (''total_results'', JInt (int (length results)))], 200), w')"
proof -
  from assms(1) have "query_missing py (JObj d) = Inr False"
    by (simp add: query_missing_object)
  with assms show ?thesis
    by (auto simp: search_documents_def get_json_def bind_io_def lift_io_def return_io_def
        format_results_length Let_def split: prod.splits sum.splits)
qed

lemma search_documents_200:
  assumes "snd (fst (search_documents sv py cfg no_json body w)) = 200"
  shows "\<exists>query results.
           fst (fst (search_documents sv py cfg no_json body w)) =
             [(''success'', JBool True), (''query'', query),
              (''results'', JList (format_results results)),
              (''total_results'', JInt (int (length (format_results results))))]"
  using assms
  by (auto simp: search_documents_def bind_io_def lift_io_def return_io_def error_response_def
      Let_def split: sum.splits prod.splits if_splits)

text \<open>
  C8 (as amended). For every search request whose JSON body is \<open>null\<close>, empty or
  otherwise falsy, or is an object without a \<open>query\<close> field, the answer is 400. For a
  body that is an object with a \<open>query\<close>, when the manager is constructed and the
  search succeeds, the answer is 200 with the body
  \<open>{success, query, results, total_results}\<close>, where \<open>total_results\<close> is the number
  of entries of \<open>results\<close> and each entry has exactly the fields \<open>content\<close>,
  \<open>metadata\<close> and \<open>similarity_score\<close>; and every answer of status 200 has such a
  body.
\<close>

theorem search_documents_responses:
  "(\<not> truthy data \<or> (\<exists>d. data = JObj d \<and> map_of d ''query'' = None) \<longrightarrow>
      search_documents sv py cfg no_json (Body data) w =
        (([(''error'', JStr ''Query is required'')], 400), w))
   \<and> (map_of d ''query'' = Some query \<and>
       bind_io (VectorStoreManager sv cfg) (\<lambda>vector_store.
         similarity_search sv vector_store query (dict_get d ''k'' (JInt 5))
           (dict_get d ''filter'' (JObj []))) w = (Inr results, w') \<longrightarrow>
        search_documents sv py cfg no_json (Body (JObj d)) w =
          (([(''success'', JBool True), (''query'', query),
             (''results'', JList (format_results results)),
             (''total_results'', JInt (int (length results)))], 200), w')
      \<and> length (format_results results) = length results
      \<and> (\<forall>entry \<in> set (format_results results).
            \<exists>content md score.
              entry = JObj [(''content'', JStr content), (''metadata'', JObj md),
                            (''similarity_score'', JFloat score)]))
   \<and> (snd (fst (search_documents sv py cfg no_json body w)) = 200 \<longrightarrow>
        (\<exists>query entries.
           fst (fst (search_documents sv py cfg no_json body w)) =
             [(''success'', JBool True), (''query'', query),
              (''results'', JList entries),
              (''total_results'', JInt (int (length entries)))]
         \<and> (\<forall>entry \<in> set entries.
               \<exists>content md score.
                 entry = JObj [(''content'', JStr content), (''metadata'', JObj md),
                               (''similarity_score'', JFloat score)])))"
proof (intro conjI impI)
  assume "\<not> truthy data \<or> (\<exists>d. data = JObj d \<and> map_of d ''query'' = None)"
  then have "query_missing py data = Inr True"
    by (auto simp: query_missing_falsy query_missing_object)
  then show "search_documents sv py cfg no_json (Body data) w =
        (([(''error'', JStr ''Query is required'')], 400), w)"
    by (rule search_documents_missing)
next
  assume h: "map_of d ''query'' = Some query \<and>
       bind_io (VectorStoreManager sv cfg) (\<lambda>vector_store.
         similarity_search sv vector_store query (dict_get d ''k'' (JInt 5))
           (dict_get d ''filter'' (JObj []))) w = (Inr results, w')"
  then show "search_documents sv py cfg no_json (Body (JObj d)) w =
          (([(''success'', JBool True), (''query'', query),
             (''results'', JList (format_results results)),
             (''total_results'', JInt (int (length results)))], 200), w')"
    by (intro search_documents_found) simp_all
  show "length (format_results results) = length results"
    by (rule format_results_length)
  show "\<forall>entry \<in> set (format_results results).
            \<exists>content md score.
              entry = JObj [(''content'', JStr content), (''metadata'', JObj md),
                            (''similarity_score'', JFloat score)]"
    using format_results_entries by blast
next
  assume "snd (fst (search_documents sv py cfg no_json body w)) = 200"
  from search_documents_200 [OF this] obtain query results where
    "fst (fst (search_documents sv py cfg no_json body w)) =
             [(''success'', JBool True), (''query'', query),
              (''results'', JList (format_results results)),
              (''total_results'', JInt (int (length (format_results results))))]"
    by blast
  moreover have "\<forall>entry \<in> set (format_results results).
               \<exists>content md score.
                 entry = JObj [(''content'', JStr content), (''metadata'', JObj md),
                               (''similarity_score'', JFloat score)]"
    using format_results_entries by blast
  ultimately show "\<exists>query entries.
           fst (fst (search_documents sv py cfg no_json body w)) =
             [(''success'', JBool True), (''query'', query),
              (''results'', JList entries),
              (''total_results'', JInt (int (length entries)))]
         \<and> (\<forall>entry \<in> set entries.
               \<exists>content md score.
                 entry = JObj [(''content'', JStr content), (''metadata'', JObj md),
                               (''similarity_score'', JFloat score)])"
    by blast
qed

lemma stocked_search:
  "bind_io (VectorStoreManager mem_services Config) (\<lambda>vector_store.
     similarity_search mem_services vector_store (JStr ''alpha'') (JInt 2) (JObj [])) stocked =
   (Inr [(chunk ''a'' ''alpha'', 1), (chunk ''a'' ''alpha again'', 1)],
    stocked\<lparr>calls := [Call_Pinecone, Call_OpenAIEmbeddings, Call_list_indexes,
                        Call_Index ''langchain-documents'',
                        Call_langchain_Pinecone ''langchain-documents'',
                        Call_similarity_search_with_score ''langchain-documents''
                          (JStr ''alpha'') (JInt 2) (JObj [])]\<rparr>)"
  by (simp add: bind_io_def VectorStoreManager_ready [OF stocked_ready] similarity_search_def
      ext_read_def return_io_def mem_services_sel mem_search_def mem_lookup_def Config_sel
      stocked_sel chunk_def)

theorem search_documents_responses_witness:
  "\<not> truthy JNull
   \<and> search_documents mem_services plain_interpreter Config
        (OtherError ''415 Unsupported Media Type'') (Body JNull) stocked =
        (([(''error'', JStr ''Query is required'')], 400), stocked)
   \<and> map_of [(''k'', JInt 3)] ''query'' = None
   \<and> search_documents mem_services plain_interpreter Config
        (OtherError ''415 Unsupported Media Type'') (Body (JObj [(''k'', JInt 3)])) stocked =
        (([(''error'', JStr ''Query is required'')], 400), stocked)
   \<and> map_of [(''query'', JStr ''alpha''), (''k'', JInt 2)] ''query'' = Some (JStr ''alpha'')
   \<and> search_documents mem_services plain_interpreter Config
        (OtherError ''415 Unsupported Media Type'')
        (Body (JObj [(''query'', JStr ''alpha''), (''k'', JInt 2)])) stocked =
        (([(''success'', JBool True), (''query'', JStr ''alpha''),
           (''results'', JList
              [JObj [(''content'', JStr ''alpha''), (''metadata'', JObj [(''doc_id'', JStr ''a'')]),
                     (''similarity_score'', JFloat 1)],
               JObj [(''content'', JStr ''alpha again''),
                     (''metadata'', JObj [(''doc_id'', JStr ''a'')]),
                     (''similarity_score'', JFloat 1)]]),
           (''total_results'', JInt 2)], 200),
         stocked\<lparr>calls := [Call_Pinecone, Call_OpenAIEmbeddings, Call_list_indexes,
                        Call_Index ''langchain-documents'',
                        Call_langchain_Pinecone ''langchain-documents'',
                        Call_similarity_search_with_score ''langchain-documents''
                          (JStr ''alpha'') (JInt 2) (JObj [])]\<rparr>)"
  using search_documents_responses [where data = JNull and sv = mem_services
      and py = plain_interpreter and cfg = Config
      and no_json = "OtherError ''415 Unsupported Media Type''" and w = stocked
      and d = "[(''query'', JStr ''alpha''), (''k'', JInt 2)]" and query = "JStr ''alpha''"
      and results = "[(chunk ''a'' ''alpha'', 1), (chunk ''a'' ''alpha again'', 1)]"
      and w' = "stocked\<lparr>calls := [Call_Pinecone, Call_OpenAIEmbeddings, Call_list_indexes,
                        Call_Index ''langchain-documents'',
                        Call_langchain_Pinecone ''langchain-documents'',
                        Call_similarity_search_with_score ''langchain-documents''
                          (JStr ''alpha'') (JInt 2) (JObj [])]\<rparr>"]
    search_documents_responses [where data = "JObj [(''k'', JInt 3)]" and sv = mem_services
      and py = plain_interpreter and cfg = Config
      and no_json = "OtherError ''415 Unsupported Media Type''" and w = stocked]
    stocked_search
  by (simp add: dict_get_def format_results_def chunk_def)

text \<open>
  C8 as stated fails where the body is absent or is not an object. For a request with
  no JSON body \<open>get_json\<close> raises before the test of the handler is reached, and the
  answer is 500; the body \<open>["query"]\<close> has no \<open>query\<close> field, passes the test and is
  answered 500 as well.
\<close>

theorem search_absent_body_counterexample:
  "search_documents mem_services plain_interpreter Config
     (OtherError ''415 Unsupported Media Type'') NoBody stocked =
     (([(''error'', JStr ''Search failed: 415 Unsupported Media Type'')], 500), stocked)
   \<and> snd (fst (search_documents mem_services plain_interpreter Config
        (OtherError ''415 Unsupported Media Type'') (Body (JList [JStr ''query''])) stocked)) = 500"
  by (simp add: search_documents_def get_json_def bind_io_def lift_io_def return_io_def
      error_response_def query_missing_def plain_interpreter_def)

section \<open>Properties of index initialisation\<close>

lemma init_index_listed:
  assumes "list_indexes sv (remote w) = Inr names"
      and "PINECONE_INDEX_NAME cfg \<in> set names"
  shows "remote (snd (init_index sv cfg dimension self w)) = remote w"
    and "filter is_create (calls (snd (init_index sv cfg dimension self w)))
           = filter is_create (calls w)"
    and "pc_Index sv (PINECONE_INDEX_NAME cfg) (remote w) = Inr () \<Longrightarrow>
         langchain_Pinecone sv (PINECONE_INDEX_NAME cfg) (remote w) = Inr () \<Longrightarrow>
         fst (init_index sv cfg dimension self w)
           = Inr (self\<lparr>vector_store := Some (PINECONE_INDEX_NAME cfg)\<rparr>)"
  using assms
  by (auto simp: init_index_def bind_io_def ext_read_def return_io_def Let_def split: sum.splits)

lemma init_index_unlisted:
  assumes "list_indexes sv (remote w) = Inr names"
      and "PINECONE_INDEX_NAME cfg \<notin> set names"
  shows "Call_create_index (PINECONE_INDEX_NAME cfg) dimension ''cosine''
           \<in> set (calls (snd (init_index sv cfg dimension self w)))"
  using assms
  by (auto simp: init_index_def bind_io_def ext_read_def ext_write_def return_io_def Let_def
      split: sum.splits prod.splits)

lemma init_index_list_fails:
  assumes "list_indexes sv (remote w) = Inl e"
  shows "init_index sv cfg dimension self w = (Inl e, w\<lparr>calls := calls w @ [Call_list_indexes]\<rparr>)"
  using assms by (simp add: init_index_def bind_io_def ext_read_def Let_def)

lemma init_index_Inr:
  assumes "init_index sv cfg dimension self w = (Inr self1, w1)"
  shows "vector_store self1 = Some (PINECONE_INDEX_NAME cfg)
       \<and> (\<exists>names. list_indexes sv (remote w) = Inr names
            \<and> (PINECONE_INDEX_NAME cfg \<in> set names \<and> remote w1 = remote w
               \<or> PINECONE_INDEX_NAME cfg \<notin> set names
                 \<and> create_index sv (PINECONE_INDEX_NAME cfg) dimension ''cosine'' (remote w)
                     = (Inr (), remote w1)))"
  using assms
  by (auto simp: init_index_def bind_io_def ext_read_def ext_write_def return_io_def Let_def
      split: sum.splits prod.splits if_splits)

lemma init_index_no_create:
  assumes "\<And>names. list_indexes sv (remote w) = Inr names \<Longrightarrow> PINECONE_INDEX_NAME cfg \<in> set names"
  shows "remote (snd (init_index sv cfg dimension self w)) = remote w
       \<and> filter is_create (calls (snd (init_index sv cfg dimension self w)))
           = filter is_create (calls w)"
proof (cases "list_indexes sv (remote w)")
  case (Inl e)
  then show ?thesis by (simp add: init_index_list_fails)
next
  case (Inr names)
  with assms have "PINECONE_INDEX_NAME cfg \<in> set names" by simp
  with Inr show ?thesis by (simp add: init_index_listed)
qed

text \<open>
  C9. \<open>init_index\<close> asks the provider to create the index exactly when the configured
  name is not among the listed indexes, and otherwise connects to the existing one
  without creating. With a provider that lists what it created, a call after a
  successful call makes no create call and leaves the provider's state, and so its
  indexes, unchanged.
\<close>

theorem init_index_idempotent:
  "(list_indexes sv (remote w) = Inr names \<and> PINECONE_INDEX_NAME cfg \<in> set names \<longrightarrow>
      remote (snd (init_index sv cfg dimension self w)) = remote w
    \<and> filter is_create (calls (snd (init_index sv cfg dimension self w)))
         = filter is_create (calls w)
    \<and> (pc_Index sv (PINECONE_INDEX_NAME cfg) (remote w) = Inr () \<and>
       langchain_Pinecone sv (PINECONE_INDEX_NAME cfg) (remote w) = Inr () \<longrightarrow>
         fst (init_index sv cfg dimension self w)
           = Inr (self\<lparr>vector_store := Some (PINECONE_INDEX_NAME cfg)\<rparr>)))
   \<and> (list_indexes sv (remote w) = Inr names \<and> PINECONE_INDEX_NAME cfg \<notin> set names \<longrightarrow>
        Call_create_index (PINECONE_INDEX_NAME cfg) dimension ''cosine''
          \<in> set (calls (snd (init_index sv cfg dimension self w))))
   \<and> (create_then_listed sv \<and> init_index sv cfg dimension self w = (Inr self1, w1) \<longrightarrow>
        remote (snd (init_index sv cfg dimension' self1 w1)) = remote w1
      \<and> filter is_create (calls (snd (init_index sv cfg dimension' self1 w1)))
           = filter is_create (calls w1))"
proof (intro conjI impI)
  assume h: "list_indexes sv (remote w) = Inr names \<and> PINECONE_INDEX_NAME cfg \<in> set names"
  then have nc: "\<And>ns. list_indexes sv (remote w) = Inr ns \<Longrightarrow> PINECONE_INDEX_NAME cfg \<in> set ns"
    by simp
  from init_index_no_create [of sv w cfg dimension self, OF nc]
  show "remote (snd (init_index sv cfg dimension self w)) = remote w"
    and "filter is_create (calls (snd (init_index sv cfg dimension self w)))
         = filter is_create (calls w)"
    by simp_all
  assume "pc_Index sv (PINECONE_INDEX_NAME cfg) (remote w) = Inr () \<and>
       langchain_Pinecone sv (PINECONE_INDEX_NAME cfg) (remote w) = Inr ()"
  with h show "fst (init_index sv cfg dimension self w)
           = Inr (self\<lparr>vector_store := Some (PINECONE_INDEX_NAME cfg)\<rparr>)"
    by (simp add: init_index_listed [of sv w names cfg])
next
  assume "list_indexes sv (remote w) = Inr names \<and> PINECONE_INDEX_NAME cfg \<notin> set names"
  then show "Call_create_index (PINECONE_INDEX_NAME cfg) dimension ''cosine''
          \<in> set (calls (snd (init_index sv cfg dimension self w)))"
    by (simp add: init_index_unlisted [of sv w names cfg])
next
  assume h: "create_then_listed sv \<and> init_index sv cfg dimension self w = (Inr self1, w1)"
  then have ctl: "create_then_listed sv"
    and first: "init_index sv cfg dimension self w = (Inr self1, w1)" by simp_all
  have listed: "PINECONE_INDEX_NAME cfg \<in> set ns" if l1: "list_indexes sv (remote w1) = Inr ns" for ns
  proof -
    from init_index_Inr [OF first] obtain names0 where
      l0: "list_indexes sv (remote w) = Inr names0"
      and alt: "PINECONE_INDEX_NAME cfg \<in> set names0 \<and> remote w1 = remote w
               \<or> PINECONE_INDEX_NAME cfg \<notin> set names0
                 \<and> create_index sv (PINECONE_INDEX_NAME cfg) dimension ''cosine'' (remote w)
                     = (Inr (), remote w1)"
      by blast
    from alt show ?thesis
    proof
      assume "PINECONE_INDEX_NAME cfg \<in> set names0 \<and> remote w1 = remote w"
      with l0 l1 show ?thesis by simp
    next
      assume "PINECONE_INDEX_NAME cfg \<notin> set names0
                 \<and> create_index sv (PINECONE_INDEX_NAME cfg) dimension ''cosine'' (remote w)
                     = (Inr (), remote w1)"
      with ctl l1 show ?thesis unfolding create_then_listed_def by blast
    qed
  qed
  from init_index_no_create [of sv w1 cfg dimension' self1, OF listed]
  show "remote (snd (init_index sv cfg dimension' self1 w1)) = remote w1"
    and "filter is_create (calls (snd (init_index sv cfg dimension' self1 w1)))
           = filter is_create (calls w1)"
    by simp_all
qed

lemma mem_create_then_listed: "create_then_listed mem_services"
  by (auto simp: create_then_listed_def mem_services_sel split: if_splits)

theorem init_index_idempotent_witness:
  "create_then_listed mem_services
   \<and> list_indexes mem_services (remote blank) = Inr []
   \<and> PINECONE_INDEX_NAME Config \<notin> set []
   \<and> init_index mem_services Config 1536 \<lparr>vector_store = None\<rparr> blank =
       (Inr \<lparr>vector_store = Some ''langchain-documents''\<rparr>,
        \<lparr>remote = [(''langchain-documents'', [])], disk = Map.empty,
          calls = [Call_list_indexes,
                   Call_create_index ''langchain-documents'' 1536 ''cosine'',
                   Call_Index ''langchain-documents'',
                   Call_langchain_Pinecone ''langchain-documents'']\<rparr>)
   \<and> Call_create_index ''langchain-documents'' 1536 ''cosine''
       \<in> set (calls (snd (init_index mem_services Config 1536 \<lparr>vector_store = None\<rparr> blank)))
   \<and> init_index mem_services Config 1536 \<lparr>vector_store = Some ''langchain-documents''\<rparr>
        \<lparr>remote = [(''langchain-documents'', [])], disk = Map.empty,
          calls = [Call_list_indexes,
                   Call_create_index ''langchain-documents'' 1536 ''cosine'',
                   Call_Index ''langchain-documents'',
                   Call_langchain_Pinecone ''langchain-documents'']\<rparr> =
       (Inr \<lparr>vector_store = Some ''langchain-documents''\<rparr>,
        \<lparr>remote = [(''langchain-documents'', [])], disk = Map.empty,
          calls = [Call_list_indexes,
                   Call_create_index ''langchain-documents'' 1536 ''cosine'',
                   Call_Index ''langchain-documents'',
                   Call_langchain_Pinecone ''langchain-documents'',
                   Call_list_indexes,
                   Call_Index ''langchain-documents'',
                   Call_langchain_Pinecone ''langchain-documents'']\<rparr>)
   \<and> list_indexes mem_services [(''langchain-documents'', [])] = Inr [''langchain-documents'']"
proof -
  let ?w1 = "\<lparr>remote = [(''langchain-documents'', [])], disk = Map.empty,
          calls = [Call_list_indexes,
                   Call_create_index ''langchain-documents'' 1536 ''cosine'',
                   Call_Index ''langchain-documents'',
                   Call_langchain_Pinecone ''langchain-documents'']\<rparr> :: mem world"
  have first: "init_index mem_services Config 1536 \<lparr>vector_store = None\<rparr> blank =
       (Inr \<lparr>vector_store = Some ''langchain-documents''\<rparr>, ?w1)"
    by (simp add: init_index_def bind_io_def ext_read_def ext_write_def return_io_def Let_def
        mem_services_sel mem_lookup_def blank_def Config_sel)
  have second: "init_index mem_services Config 1536 \<lparr>vector_store = Some ''langchain-documents''\<rparr> ?w1 =
       (Inr \<lparr>vector_store = Some ''langchain-documents''\<rparr>,
        ?w1\<lparr>calls := calls ?w1 @ [Call_list_indexes, Call_Index ''langchain-documents'',
                                      Call_langchain_Pinecone ''langchain-documents'']\<rparr>)"
    by (simp add: init_index_def bind_io_def ext_read_def ext_write_def return_io_def Let_def
        mem_services_sel mem_lookup_def Config_sel)
  show ?thesis
    using init_index_idempotent [of mem_services blank "[]" Config 1536 "\<lparr>vector_store = None\<rparr>"
        "\<lparr>vector_store = Some ''langchain-documents''\<rparr>" ?w1 1536]
      mem_create_then_listed first second
    by (simp add: mem_services_sel blank_def Config_sel)
qed

end
